theory Spec2Isabelle
  imports Main
begin

section \<open>Python strings\<close>

text \<open>
  The module \<open>conv.py\<close> is Python 2: a \<open>str\<close> is a byte string, modelled as
  \<^typ>\<open>string\<close>.  The two characters that cannot be written inside a string literal
  get names.
\<close>

definition squote :: char where
  "squote = CHR 0x27"

definition bslash :: char where
  "bslash = CHR 0x5C"

definition dquote :: char where
  "dquote = CHR 0x22"

definition newline :: char where
  "newline = CHR 0x0A"

text \<open>
  \<open>s.replace(old, new)\<close>: the occurrences of \<open>old\<close> are replaced from the left, without
  overlap.  With an empty \<open>old\<close> Python puts \<open>new\<close> before every character and at the end.
\<close>

function replace_str :: "string \<Rightarrow> string \<Rightarrow> string \<Rightarrow> string" where
  "replace_str old new [] = []"
| "replace_str old new (c # cs) =
     (if old \<noteq> [] \<and> take (length old) (c # cs) = old
      then new @ replace_str old new (drop (length old) (c # cs))
      else c # replace_str old new cs)"
  by pat_completeness auto
termination
  by (relation "measure (\<lambda>(old, new, s). length s)") auto

definition py_replace :: "string \<Rightarrow> string \<Rightarrow> string \<Rightarrow> string" where
  "py_replace s old new =
     (if old = [] then new @ concat (map (\<lambda>c. c # new) s) else replace_str old new s)"

text \<open>\<open>sep.join(parts)\<close>.\<close>

fun py_join :: "string \<Rightarrow> string list \<Rightarrow> string" where
  "py_join sep [] = []"
| "py_join sep [p] = p"
| "py_join sep (p # q # ps) = p @ sep @ py_join sep (q # ps)"

section \<open>Shell argument escaper\<close>

text \<open>
  \<^verbatim>\<open>return '\'' + arg.replace('\'', '\'' + '\\' + '\'' + '\'') + '\''\<close>
\<close>

definition escape_shell_arg :: "string \<Rightarrow> string" where
  "escape_shell_arg arg =
     [squote] @ py_replace arg [squote] ([squote] @ [bslash] @ [squote] @ [squote]) @ [squote]"

subsection \<open>The receiving side: word splitting of a POSIX shell\<close>

text \<open>
  The shell is not part of the module; the escaper is written against its quoting rules
  (POSIX.1, Shell Command Language, 2.2 Quoting), which are written out here as a
  splitter of a command line into words:
  \<^item> blanks separate words outside of quotes;
  \<^item> between single quotes every character stands for itself, and a single quote cannot
    occur there;
  \<^item> between double quotes a backslash escapes only \<open>$\<close>, the backquote, the double quote,
    the backslash and the newline;
  \<^item> outside of quotes a backslash makes the next character literal, and a
    backslash-newline pair is a line continuation;
  \<^item> a quote that is never closed, or a backslash at the very end, is an error
    (\<open>None\<close>).
\<close>

datatype lexmode = Blank | Bare | Single | Double

definition is_blank :: "char \<Rightarrow> bool" where
  "is_blank c \<longleftrightarrow> c = CHR '' '' \<or> c = CHR 0x09 \<or> c = newline"

fun shell_lex :: "lexmode \<Rightarrow> string \<Rightarrow> string \<Rightarrow> string list option" where
  "shell_lex m cur [] =
     (case m of Blank \<Rightarrow> Some [] | Bare \<Rightarrow> Some [cur] | Single \<Rightarrow> None | Double \<Rightarrow> None)"
| "shell_lex m cur (c # cs) =
     (case m of
        Single \<Rightarrow>
          if c = squote then shell_lex Bare cur cs else shell_lex Single (cur @ [c]) cs
      | Double \<Rightarrow>
          if c = dquote then shell_lex Bare cur cs
          else if c = bslash then
            (case cs of
               [] \<Rightarrow> None
             | d # ds \<Rightarrow>
                 if d = newline then shell_lex Double cur ds
                 else if d = dquote \<or> d = bslash \<or> d = CHR ''$'' \<or> d = CHR 0x60
                 then shell_lex Double (cur @ [d]) ds
                 else shell_lex Double (cur @ [c, d]) ds)
          else shell_lex Double (cur @ [c]) cs
      | _ \<Rightarrow>
          if is_blank c then
            (if m = Bare then map_option ((#) cur) (shell_lex Blank [] cs)
             else shell_lex Blank [] cs)
          else if c = squote then shell_lex Single cur cs
          else if c = dquote then shell_lex Double cur cs
          else if c = bslash then
            (case cs of
               [] \<Rightarrow> None
             | d # ds \<Rightarrow>
                 if d = newline then shell_lex m cur ds else shell_lex Bare (cur @ [d]) ds)
          else shell_lex Bare (cur @ [c]) cs)"

definition shell_split :: "string \<Rightarrow> string list option" where
  "shell_split s = shell_lex Blank [] s"

text \<open>\<open>str(n)\<close> for an integer: its decimal digits, with a minus sign when negative.\<close>

definition digit_char :: "nat \<Rightarrow> char" where
  "digit_char d = ''0123456789'' ! d"

function str_nat :: "nat \<Rightarrow> string" where
  "str_nat n = (if n < 10 then [digit_char n] else str_nat (n div 10) @ [digit_char (n mod 10)])"
  by pat_completeness auto
termination
  by (relation "measure id") auto

declare str_nat.simps [simp del]

definition str_int :: "int \<Rightarrow> string" where
  "str_int i = (if i < 0 then ''-'' @ str_nat (nat (- i)) else str_nat (nat i))"

text \<open>\<open>sub in s\<close> and \<open>s.find(sub)\<close> (\<open>None\<close> for Python's \<open>-1\<close>).\<close>

fun py_in :: "string \<Rightarrow> string \<Rightarrow> bool" where
  "py_in sub [] = (sub = [])"
| "py_in sub (c # cs) = (take (length sub) (c # cs) = sub \<or> py_in sub cs)"


section \<open>Converter configuration\<close>

text \<open>
  The attributes of a converter instance that the command builder reads.  \<open>None\<close> is
  Python's \<open>None\<close>.  The conditions of the source test truthiness: \<open>None\<close>, \<open>0\<close> and the
  empty string count as false.
\<close>

datatype family = Plain | MencoderFamily | FFMpegFamily

record converter =
  family :: family
  width :: "int option"
  height :: "int option"
  sample_rate :: "int option"
  output_format :: string
  video_codec :: string
  video_opts :: "string option"
  video_opts_prefix :: string
  audio_codec :: "string option"
  audio_opts :: "string option"
  audio_opts_prefix :: string

definition true_int :: "int option \<Rightarrow> bool" where
  "true_int v = (case v of None \<Rightarrow> False | Some n \<Rightarrow> n \<noteq> 0)"

definition true_str :: "string option \<Rightarrow> bool" where
  "true_str v = (case v of None \<Rightarrow> False | Some s \<Rightarrow> s \<noteq> [])"

text \<open>\<open>'{x}'.format(x=v)\<close> and \<open>'%s' % v\<close> of an attribute print \<open>None\<close> as \<open>None\<close>.\<close>

definition fmt_int :: "int option \<Rightarrow> string" where
  "fmt_int v = (case v of None \<Rightarrow> ''None'' | Some n \<Rightarrow> str_int n)"

definition fmt_str :: "string option \<Rightarrow> string" where
  "fmt_str v = (case v of None \<Rightarrow> ''None'' | Some s \<Rightarrow> s)"

text \<open>
  The class attributes of \<open>BaseConverter\<close> and of its subclasses.  The field \<open>family\<close>
  tells which methods the class of the instance has: \<open>BaseConverter\<close> itself has neither
  \<open>get_encode_command\<close> nor \<open>parse_converter_output\<close>, \<open>MencoderConverter\<close> and its
  subclasses have both, \<open>FFMpegConverter\<close> has only \<open>parse_converter_output\<close>.
\<close>

definition BaseConverter :: converter where
  "BaseConverter =
     \<lparr> family = Plain, width = Some 640, height = Some 480, sample_rate = Some 22050,
       output_format = ''lavf'', video_codec = ''lavc'', video_opts = None,
       video_opts_prefix = '''', audio_codec = Some ''lavc'', audio_opts = None,
       audio_opts_prefix = '''' \<rparr>"

definition MencoderConverter :: converter where
  "MencoderConverter = BaseConverter \<lparr> family := MencoderFamily \<rparr>"

definition FFMpegConverter :: converter where
  "FFMpegConverter = BaseConverter \<lparr> family := FFMpegFamily \<rparr>"

definition H263Converter :: converter where
  "H263Converter =
     MencoderConverter
     \<lparr> video_codec := ''lavc'',
       video_opts :=
         Some ''vcodec=flv:vbitrate=700:trell:v4mv:mv0:mbd=2:cbp:aic:cmp=3:subcmp=3'',
       audio_codec := Some ''mp3lame'', audio_opts := Some ''abr:br=64'',
       audio_opts_prefix := ''lameopts'' \<rparr>"

definition H264Converter :: converter where
  "H264Converter =
     MencoderConverter
     \<lparr> video_codec := ''x264'', video_opts := Some '''',
       video_opts_prefix := ''x264encopts'',
       audio_codec := Some ''mp3lame'', audio_opts := Some ''abr:br=64'',
       audio_opts_prefix := ''lameopts'' \<rparr>"

text \<open>
  \<open>__init__\<close>: \<open>self.width = kwargs.get('width') or self.width\<close>, and the same for the
  height; \<open>a or b\<close> is \<open>a\<close> when \<open>a\<close> is true and \<open>b\<close> otherwise.
\<close>

definition init :: "converter \<Rightarrow> int option \<Rightarrow> int option \<Rightarrow> converter" where
  "init cls kw_width kw_height =
     cls \<lparr> width := (if true_int kw_width then kw_width else width cls),
           height := (if true_int kw_height then kw_height else height cls) \<rparr>"

section \<open>Command builder of the mencoder family\<close>

text \<open>The nested functions of \<open>MencoderConverter.get_encode_command\<close>, in source order.\<close>

definition input_filename :: "string \<Rightarrow> string" where
  "input_filename input_file = escape_shell_arg input_file"

definition output_filename :: "string \<Rightarrow> string" where
  "output_filename output_file = ''-o '' @ output_file"

definition container :: "converter \<Rightarrow> string" where
  "container self = ''-of '' @ output_format self"

definition vcodec :: "converter \<Rightarrow> string" where
  "vcodec self = ''-ovc '' @ video_codec self"

definition vcodec_opts :: "converter \<Rightarrow> string" where
  "vcodec_opts self =
     (if \<not> true_str (video_opts self) then ''''
      else let param = video_codec self @ ''opts'';
               param = (if video_opts_prefix self \<noteq> [] then video_opts_prefix self else param)
           in ''-'' @ param @ '' '' @ fmt_str (video_opts self))"

definition acodec :: "converter \<Rightarrow> string" where
  "acodec self =
     (if \<not> true_str (audio_codec self) then ''''
      else ''-oac '' @ fmt_str (audio_codec self))"

definition acodec_opts :: "converter \<Rightarrow> string" where
  "acodec_opts self =
     (if \<not> true_str (audio_opts self) then ''''
      else let param = fmt_str (audio_codec self) @ ''opts'';
               param = (if audio_opts_prefix self \<noteq> [] then audio_opts_prefix self else param)
           in ''-'' @ param @ '' '' @ fmt_str (audio_opts self))"

definition sample_rate_arg :: "converter \<Rightarrow> string" where
  "sample_rate_arg self =
     (if true_int (sample_rate self) then ''-srate '' @ fmt_int (sample_rate self) else '''')"

definition video_filters :: "converter \<Rightarrow> string" where
  "video_filters self =
     (let bits =
        (if true_int (width self) \<and> true_int (height self)
         then [''scale='' @ fmt_int (width self) @ '':'' @ fmt_int (height self)]
         else if true_int (width self) \<and> \<not> true_int (height self)
         then [''scale='' @ fmt_int (width self) @ '':-'']
         else if \<not> true_int (width self) \<and> true_int (height self)
         then [''scale=-:'' @ fmt_int (height self)]
         else [])
      in if bits \<noteq> [] then ''-vf '' @ py_join '','' bits else '''')"

definition get_encode_command :: "converter \<Rightarrow> string \<Rightarrow> string \<Rightarrow> string" where
  "get_encode_command self input_file output_file =
     py_join '' ''
       [''mencoder'',
        input_filename input_file,
        output_filename output_file,
        container self,
        vcodec self,
        vcodec_opts self,
        acodec self,
        acodec_opts self,
        sample_rate_arg self,
        video_filters self]"

section \<open>Snapshot command\<close>

text \<open>
  The command line that the module-level \<open>make_snapshot\<close> builds:
  \<^verbatim>\<open>
  command = ' '.join(['ffmpeg',
      '-ss {position}'.format(position=position),
      '-i  {video}'.format(video=escape_shell_arg(video_filename)),
      '-an -vframes 1 -y -f mjpeg',
      escape_shell_arg(snapshot_filename),
  ])
  \<close>
\<close>

definition snapshot_command :: "string \<Rightarrow> string \<Rightarrow> int \<Rightarrow> string" where
  "snapshot_command video_filename snapshot_filename position =
     py_join '' ''
       [''ffmpeg'',
        ''-ss '' @ str_int position,
        ''-i  '' @ escape_shell_arg video_filename,
        ''-an -vframes 1 -y -f mjpeg'',
        escape_shell_arg snapshot_filename]"

section \<open>Exceptions\<close>

text \<open>
  The four exception classes of the module, and the built-in exceptions that its code
  can raise.  A function that can raise returns \<open>error + 'a\<close>, with \<open>Inl\<close> the exception.
\<close>

datatype error =
    UtilityNotFound
  | CodecNotFound
  | WrongCommandLine
  | WrongVideoFormat
  | ValueError
  | UnboundLocalError
  | AttributeError
  | KeyError
  | OSError
  | TypeError
  | ZeroDivisionError
  | OverflowError

section \<open>Progress trackers\<close>

text \<open>
  Python values, as far as the module handles them: \<open>None\<close>, booleans, integers, strings
  and references to dictionaries (the address of the dictionary in the store).  The
  entry \<open>'percent'\<close> of a tracker's dictionary holds the integer it starts with, or a
  string; in Python 2 an integer and a string are never equal.
\<close>

datatype pyval = PNone | PBool bool | PInt int | PStr string | PRef nat

definition is_digit :: "char \<Rightarrow> bool" where
  "is_digit c \<longleftrightarrow> c \<in> set ''0123456789''"

text \<open>
  The class \<open>\s\<close> of a pattern compiled with \<open>re.U\<close>, on a byte string: the code points
  below 256 that Unicode counts as white space.
\<close>

definition is_space :: "char \<Rightarrow> bool" where
  "is_space c \<longleftrightarrow>
     c \<in> {CHR 0x09, CHR 0x0A, CHR 0x0B, CHR 0x0C, CHR 0x0D, CHR 0x1C, CHR 0x1D, CHR 0x1E,
          CHR 0x1F, CHR 0x20, CHR 0x85, CHR 0xA0}"

text \<open>\<open>int(s)\<close> of a string: blanks around, an optional sign, then decimal digits only.\<close>

definition digit_val :: "char \<Rightarrow> nat" where
  "digit_val c = (if is_digit c then length (takeWhile (\<lambda>d. d \<noteq> c) ''0123456789'') else 0)"

definition nat_of_digits :: "string \<Rightarrow> nat" where
  "nat_of_digits s = foldl (\<lambda>n c. 10 * n + digit_val c) 0 s"

definition all_digits :: "string \<Rightarrow> bool" where
  "all_digits s \<longleftrightarrow> s \<noteq> [] \<and> list_all is_digit s"

definition strip :: "string \<Rightarrow> string" where
  "strip s = rev (dropWhile is_space (rev (dropWhile is_space s)))"

definition int_of_str :: "string \<Rightarrow> error + int" where
  "int_of_str s =
     (case strip s of
        [] \<Rightarrow> Inl ValueError
      | c # r \<Rightarrow>
          if c = CHR ''-'' then
            (if all_digits r then Inr (- int (nat_of_digits r)) else Inl ValueError)
          else if c = CHR ''+'' then
            (if all_digits r then Inr (int (nat_of_digits r)) else Inl ValueError)
          else if all_digits (c # r) then Inr (int (nat_of_digits (c # r)))
          else Inl ValueError)"

definition int_of_pyval :: "pyval \<Rightarrow> error + int" where
  "int_of_pyval v =
     (case v of
        PInt n \<Rightarrow> Inr n
      | PStr s \<Rightarrow> int_of_str s
      | PBool b \<Rightarrow> Inr (if b then 1 else 0)
      | _ \<Rightarrow> Inl TypeError)"

text \<open>
  The state of a tracker: the dictionary \<open>percent\<close> that the line handler updates (the
  ffmpeg tracker's dictionary has a second entry, \<open>'duration'\<close>), and the calls of
  \<open>process_handler(old, new)\<close> made so far, in order.
\<close>

record tracker =
  percent :: pyval
  emitted :: "(int \<times> int) list"

record duration_tracker = tracker +
  duration_entry :: int

definition process_handler :: "int \<Rightarrow> int \<Rightarrow> 'a tracker_scheme \<Rightarrow> 'a tracker_scheme" where
  "process_handler old new st = st\<lparr>emitted := emitted st @ [(old, new)]\<rparr>"

subsection \<open>Percent markers (mencoder)\<close>

text \<open>
  \<^verbatim>\<open>re.compile('^Pos:.*?\(\s*?(\d+)%\)', re.U).match(line)\<close>.
  After the literal \<open>Pos:\<close> the lazy \<open>.*?\<close> tries every start, from the left, until the
  rest of the pattern matches there; a dot does not match a newline.  The rest is an
  opening parenthesis, white space, a run of digits (the group) and \<open>%)\<close>: white space
  and digits do not overlap, so the lazy \<open>\s*?\<close> ends at the first character that is not
  white space and the greedy \<open>\d+\<close> takes the whole run of digits.
\<close>

definition percent_here :: "string \<Rightarrow> string option" where
  "percent_here s =
     (case s of
        [] \<Rightarrow> None
      | c # r \<Rightarrow>
          if c = CHR ''('' then
            (let r1 = dropWhile is_space r;
                 ds = takeWhile is_digit r1;
                 r2 = dropWhile is_digit r1
             in if ds \<noteq> [] \<and> take 2 r2 = ''%)'' then Some ds else None)
          else None)"

fun percent_scan :: "string \<Rightarrow> string option" where
  "percent_scan [] = None"
| "percent_scan (c # cs) =
     (case percent_here (c # cs) of
        Some ds \<Rightarrow> Some ds
      | None \<Rightarrow> if c = newline then None else percent_scan cs)"

definition pos_match :: "string \<Rightarrow> string option" where
  "pos_match line = (if take 4 line = ''Pos:'' then percent_scan (drop 4 line) else None)"

text \<open>
  \<^verbatim>\<open>
  def line_handler(line, percent, process_handler):
      if 'Error parsing option on the command line' in line:
          raise WrongCommandLine, 'Parse error in command:\n%s\n' % command
      pos_match = re.compile('^Pos:.*?\(\s*?(\d+)%\)', re.U).match(line)
      if pos_match:
          curr = pos_match.group(1)
          if percent['percent'] != curr:
              process_handler(int(percent['percent']), int(curr))
              percent['percent'] = curr
  \<close>
\<close>

definition mencoder_line_handler :: "string \<Rightarrow> tracker \<Rightarrow> error + tracker" where
  "mencoder_line_handler line st =
     (if py_in ''Error parsing option on the command line'' line then Inl WrongCommandLine
      else case pos_match line of
        None \<Rightarrow> Inr st
      | Some cur \<Rightarrow>
          if percent st \<noteq> PStr cur then
            (case int_of_pyval (percent st) of
               Inl e \<Rightarrow> Inl e
             | Inr old \<Rightarrow>
                 (case int_of_str cur of
                    Inl e \<Rightarrow> Inl e
                  | Inr new \<Rightarrow> Inr ((process_handler old new st)\<lparr>percent := PStr cur\<rparr>)))
          else Inr st)"

text \<open>\<open>percent = {'percent':0}\<close>\<close>

definition mencoder_tracker :: tracker where
  "mencoder_tracker = \<lparr> percent = PInt 0, emitted = [] \<rparr>"

subsection \<open>Duration and timestamps (ffmpeg)\<close>

text \<open>
  The two patterns that \<open>FFMpegConverter.parse_converter_output\<close> compiles:
  \<^verbatim>\<open>
  re.compile('^Duration: (d{2}):(d{2}):(d{2}).(d{2})$', re.U)
  re.compile('time=(d{2}):(d{2}):(d{2})\.(\d{2})', re.U)
  \<close>
  In them \<open>d{2}\<close> is the letter \<open>d\<close> twice; only the last group of the second pattern
  is two digits.  The dot of the first pattern is any character but a newline, and its
  \<open>$\<close> matches at the end of the line or before a final newline.  \<open>match\<close> anchors both
  patterns at the start of the line.  The result is the four groups.
\<close>

definition re_duration :: "string \<Rightarrow> (string \<times> string \<times> string \<times> string) option" where
  "re_duration line =
     (if take 18 line = ''Duration: dd:dd:dd'' then
        (case drop 18 line of
           [] \<Rightarrow> None
         | c # r \<Rightarrow>
             if c \<noteq> newline \<and> (r = ''dd'' \<or> r = ''dd'' @ [newline])
             then Some (''dd'', ''dd'', ''dd'', ''dd'') else None)
      else None)"

definition re_progress :: "string \<Rightarrow> (string \<times> string \<times> string \<times> string) option" where
  "re_progress line =
     (if take 14 line = ''time=dd:dd:dd.'' \<and> length (take 2 (drop 14 line)) = 2
         \<and> list_all is_digit (take 2 (drop 14 line))
      then Some (''dd'', ''dd'', ''dd'', take 2 (drop 14 line)) else None)"

text \<open>
  \<^verbatim>\<open>
  def time2sec(match):
      g = match.group
      return 3600 * int(g(1)) + 60 * int(g(2)) + int(g(3))
  \<close>
\<close>

definition time2sec :: "string \<times> string \<times> string \<times> string \<Rightarrow> error + int" where
  "time2sec m =
     (case m of (g1, g2, g3, g4) \<Rightarrow>
        (case int_of_str g1 of
           Inl e \<Rightarrow> Inl e
         | Inr h \<Rightarrow>
             (case int_of_str g2 of
                Inl e \<Rightarrow> Inl e
              | Inr mi \<Rightarrow>
                  (case int_of_str g3 of
                     Inl e \<Rightarrow> Inl e
                   | Inr s \<Rightarrow> Inr (3600 * h + 60 * mi + s)))))"

text \<open>
  \<^verbatim>\<open>
  def line_handler(line, re_duration, re_progress, percent):
      duration_match = re_duration.match(line)
      progress_match = re_progress.match(line)
      if duration_match:
          duration = time2sec(duration_match)
      if progress_match:
          curr = 0
          if duration:
              curr = int(math.floor(time2sec(progress_match)*100/duration))
          if percent['percent'] != curr:
              self.process_handler(int(percent['percent']), int(curr))
              percent['percent'] = curr
  \<close>
  The name \<open>duration\<close> is a local variable of one call of the handler: it is bound only
  when the line matched \<open>re_duration\<close>, and reading it unbound raises
  \<open>UnboundLocalError\<close>.  The division is the integer division of Python 2.
\<close>

definition ffmpeg_progress ::
  "int option \<Rightarrow> string \<times> string \<times> string \<times> string \<Rightarrow> duration_tracker
     \<Rightarrow> error + duration_tracker" where
  "ffmpeg_progress local_duration m st =
     (case local_duration of
        None \<Rightarrow> Inl UnboundLocalError
      | Some d \<Rightarrow>
          (case (if d \<noteq> 0
                 then (case time2sec m of Inl e \<Rightarrow> Inl e | Inr t \<Rightarrow> Inr (t * 100 div d))
                 else Inr 0) of
             Inl e \<Rightarrow> Inl e
           | Inr cur \<Rightarrow>
               if percent st \<noteq> PInt cur then
                 (case int_of_pyval (percent st) of
                    Inl e \<Rightarrow> Inl e
                  | Inr old \<Rightarrow> Inr ((process_handler old cur st)\<lparr>percent := PInt cur\<rparr>))
               else Inr st))"

definition ffmpeg_line_handler :: "string \<Rightarrow> duration_tracker \<Rightarrow> error + duration_tracker" where
  "ffmpeg_line_handler line st =
     (case (case re_duration line of
              None \<Rightarrow> Inr None
            | Some m \<Rightarrow> (case time2sec m of Inl e \<Rightarrow> Inl e | Inr d \<Rightarrow> Inr (Some d))) of
        Inl e \<Rightarrow> Inl e
      | Inr local_duration \<Rightarrow>
          (case re_progress line of
             None \<Rightarrow> Inr st
           | Some m \<Rightarrow> ffmpeg_progress local_duration m st))"

text \<open>\<open>percent = {'percent': 0, 'duration': 0}\<close>\<close>

definition ffmpeg_tracker :: duration_tracker where
  "ffmpeg_tracker = \<lparr> percent = PInt 0, emitted = [], duration_entry = 0 \<rparr>"

subsection \<open>Feeding lines to a handler\<close>

text \<open>
  The runner calls the handler once for each line it reads, in order; an exception of
  the handler ends the run.
\<close>

fun feed :: "(string \<Rightarrow> 's \<Rightarrow> error + 's) \<Rightarrow> string list \<Rightarrow> 's \<Rightarrow> error + 's" where
  "feed handler [] st = Inr st"
| "feed handler (line # rest) st =
     (case handler line st of Inl e \<Rightarrow> Inl e | Inr st' \<Rightarrow> feed handler rest st')"

section \<open>Streaming process runner\<close>

text \<open>
  \<^verbatim>\<open>
  def popen(command, handler=None, kwargs={}, miss_count=5):
      stream, eof_count = subprocess.Popen(command, ...).stdout, 0
      while True:
          line = stream.readline()
          # Break infinite loop if EOF exceed
          if len(line) < 1:
              if eof_count > miss_count: break
              else:
                  eof_count += 1;
                  continue
          else:
              eof_count = 0
          if callable(handler):
              handler(line, **kwargs)
  \<close>
  The output of the process is the sequence of the results of its \<open>readline\<close> calls:
  \<open>reads i\<close> is what the call number \<open>i\<close> returns, the empty string for a blank read.
  The loop need not end (a process may print for ever), so it is a partial function:
  \<open>None\<close> stands for a call that never returns.  A call that returns gives the state
  that the handler built, or the exception that the handler raised; the number of
  \<open>readline\<close> calls made is recorded with the state.  A handler that is not callable
  is \<open>None\<close>.
\<close>

partial_function (option) popen_loop ::
  "(nat \<Rightarrow> string) \<Rightarrow> (string \<Rightarrow> 's \<Rightarrow> error + 's) option \<Rightarrow> int \<Rightarrow> int \<Rightarrow> nat \<Rightarrow> 's
     \<Rightarrow> (error + 's \<times> nat) option" where
  "popen_loop reads handler miss_count eof_count i st =
     (if length (reads i) < 1 then
        (if eof_count > miss_count then Some (Inr (st, Suc i))
         else popen_loop reads handler miss_count (eof_count + 1) (Suc i) st)
      else
        (case handler of
           None \<Rightarrow> popen_loop reads handler miss_count 0 (Suc i) st
         | Some h \<Rightarrow>
             (case h (reads i) st of
                Inl e \<Rightarrow> Some (Inl e)
              | Inr st' \<Rightarrow> popen_loop reads handler miss_count 0 (Suc i) st')))"

text \<open>The loop from its start, with the default \<open>miss_count=5\<close>.\<close>

definition popen_stream ::
  "(nat \<Rightarrow> string) \<Rightarrow> (string \<Rightarrow> 's \<Rightarrow> error + 's) option \<Rightarrow> 's \<Rightarrow> (error + 's \<times> nat) option" where
  "popen_stream reads handler st = popen_loop reads handler 5 0 0 st"

text \<open>
  The stream of a process that prints the given lines and then closes its output: after
  the last line every read is blank.
\<close>

definition reads_of :: "string list \<Rightarrow> nat \<Rightarrow> string" where
  "reads_of lines i = (if i < length lines then lines ! i else [])"

text \<open>A handler that keeps the lines it is called with.\<close>

definition keep_line :: "string \<Rightarrow> string list \<Rightarrow> error + string list" where
  "keep_line line seen = Inr (seen @ [line])"

section \<open>The world outside the module\<close>

text \<open>
  What the pipeline reads and changes: the files it looks at (a path and its size in
  bytes), the shell commands that \<open>popen\<close> has started, the progress reports printed by
  \<open>process_handler\<close>, and the store of Python objects: dictionaries (by address) and the
  attribute dictionaries of \<open>ConvertResult\<close> instances (by address).
\<close>

type_synonym addr = nat

record world =
  files :: "string \<rightharpoonup> nat"
  launched :: "string list"
  reported :: "(int \<times> int) list"
  dicts :: "addr \<rightharpoonup> (pyval \<rightharpoonup> pyval)"
  objects :: "addr \<rightharpoonup> (string \<rightharpoonup> pyval)"
  fresh :: addr

text \<open>
  The external programs are parameters of the model: whether a utility can be started,
  what the output stream of a command returns read by read, what the command has done
  to the files once its output is drained, and what the line handler of
  \<open>get_video_metadata\<close> stores for a file, assignment by assignment (or the exception it
  raises).  That handler, with its table of markers and conversions, is not modelled.
\<close>

record env =
  installed :: "string \<Rightarrow> bool"
  stdout_of :: "string \<Rightarrow> (string \<rightharpoonup> nat) \<Rightarrow> nat \<Rightarrow> string"
  effect :: "string \<Rightarrow> (string \<rightharpoonup> nat) \<Rightarrow> (string \<rightharpoonup> nat)"
  identified :: "string \<Rightarrow> error + (string \<times> pyval) list"

text \<open>
  The interpreter.  The method \<open>BaseConverter.make_snapshot\<close> passes a float as the step
  of \<open>xrange\<close>: Python 2.6 truncates it to an integer (with a deprecation warning),
  Python 2.7 raises \<open>TypeError\<close>.
\<close>

datatype python = Py26 | Py27

text \<open>
  A call either never returns (\<open>None\<close>), raises (\<open>Some (Inl e)\<close>) or returns a value
  (\<open>Some (Inr x)\<close>); \<open>and_then\<close> runs the rest of a function body after a call.
\<close>

definition and_then :: "(error + 'a) option \<Rightarrow> ('a \<Rightarrow> (error + 'b) option) \<Rightarrow> (error + 'b) option" where
  "and_then m f = (case m of None \<Rightarrow> None | Some (Inl e) \<Rightarrow> Some (Inl e) | Some (Inr x) \<Rightarrow> f x)"

definition raise :: "error \<Rightarrow> (error + 'a) option" where
  "raise e = Some (Inl e)"

definition return :: "'a \<Rightarrow> (error + 'a) option" where
  "return x = Some (Inr x)"

definition lift :: "error + 'a \<Rightarrow> (error + 'a) option" where
  "lift r = Some r"

subsection \<open>Running a command\<close>

text \<open>
  \<open>popen(command, handler, kwargs)\<close> in a world: the command is started, its output is
  read by the loop above, and when the loop returns the files are as the command left
  them.
\<close>

definition popen ::
  "env \<Rightarrow> string \<Rightarrow> (string \<Rightarrow> 's \<Rightarrow> error + 's) option \<Rightarrow> 's \<Rightarrow> world
     \<Rightarrow> (error + 's \<times> world) option" where
  "popen e command handler st w =
     (case popen_stream (stdout_of e command (files w)) handler st of
        None \<Rightarrow> None
      | Some (Inl x) \<Rightarrow> Some (Inl x)
      | Some (Inr (st', n)) \<Rightarrow>
          Some (Inr (st', w\<lparr>files := effect e command (files w),
                            launched := launched w @ [command]\<rparr>)))"

text \<open>
  \<open>check_utility\<close> starts the command with \<open>--help\<close>, raises \<open>UtilityNotFound\<close> when it
  cannot be started and ignores a non-zero exit status.  The parameter \<open>installed\<close> says
  that the command can be started and that this call comes to an end.  The call reads
  nothing from the pipes it opens, so a command whose help text is longer than a pipe
  buffer would block it for ever; such a command is not in the range of the parameter.
  The decorator \<open>require_utility\<close> checks each requirement in order before the function
  body runs.
\<close>

definition check_utility :: "env \<Rightarrow> string \<Rightarrow> error + unit" where
  "check_utility e command = (if installed e command then Inr () else Inl UtilityNotFound)"

fun require_utility :: "env \<Rightarrow> string list \<Rightarrow> (error + 'a) option \<Rightarrow> (error + 'a) option" where
  "require_utility e [] body = body"
| "require_utility e (requirement # rest) body =
     (case check_utility e requirement of
        Inl x \<Rightarrow> Some (Inl x)
      | Inr u \<Rightarrow> require_utility e rest body)"

subsection \<open>Objects\<close>

text \<open>
  The class \<open>ConvertResult\<close> has only class attributes; two of them are dictionaries,
  created once, when the class statement runs at import.  An instance has its own
  attribute dictionary, empty at first.  Reading an attribute looks in the instance
  first and in the class next; assigning an attribute writes to the instance.
\<close>

definition metadata_addr :: addr where
  "metadata_addr = 0"

definition snapshots_addr :: addr where
  "snapshots_addr = 1"

definition ConvertResult :: "string \<rightharpoonup> pyval" where
  "ConvertResult =
     [''STATE_SUCCESS'' \<mapsto> PBool True,
      ''STATE_FAILURE'' \<mapsto> PBool False,
      ''movie_original'' \<mapsto> PStr '''',
      ''movie_converted'' \<mapsto> PStr '''',
      ''converted'' \<mapsto> PBool False,
      ''metadata'' \<mapsto> PRef metadata_addr,
      ''snapshots'' \<mapsto> PRef snapshots_addr]"

text \<open>The world once the module is imported, with the given files on disk.\<close>

definition imported :: "(string \<rightharpoonup> nat) \<Rightarrow> world" where
  "imported fs =
     \<lparr> files = fs, launched = [], reported = [],
       dicts = [metadata_addr \<mapsto> Map.empty, snapshots_addr \<mapsto> Map.empty],
       objects = Map.empty, fresh = 2 \<rparr>"

text \<open>\<open>ConvertResult()\<close> and a dictionary display \<open>{...}\<close>: a new object at a fresh address.\<close>

definition new_ConvertResult :: "world \<Rightarrow> addr \<times> world" where
  "new_ConvertResult w =
     (fresh w, w\<lparr>objects := (objects w)(fresh w \<mapsto> Map.empty), fresh := Suc (fresh w)\<rparr>)"

definition new_dict :: "(pyval \<rightharpoonup> pyval) \<Rightarrow> world \<Rightarrow> addr \<times> world" where
  "new_dict d w = (fresh w, w\<lparr>dicts := (dicts w)(fresh w \<mapsto> d), fresh := Suc (fresh w)\<rparr>)"

definition getattr :: "world \<Rightarrow> addr \<Rightarrow> string \<Rightarrow> error + pyval" where
  "getattr w obj name =
     (case objects w obj of
        None \<Rightarrow> Inl AttributeError
      | Some own \<Rightarrow>
          (case own name of
             Some v \<Rightarrow> Inr v
           | None \<Rightarrow>
               (case ConvertResult name of
                  Some v \<Rightarrow> Inr v
                | None \<Rightarrow> Inl AttributeError)))"

definition setattr :: "addr \<Rightarrow> string \<Rightarrow> pyval \<Rightarrow> world \<Rightarrow> world" where
  "setattr obj name v w =
     w\<lparr>objects := (objects w)(obj \<mapsto> (case objects w obj of
                                          None \<Rightarrow> [name \<mapsto> v]
                                        | Some own \<Rightarrow> own(name \<mapsto> v)))\<rparr>"

text \<open>\<open>d[k]\<close> and \<open>d[k] = v\<close> on a value that should be a dictionary.\<close>

definition getitem :: "world \<Rightarrow> pyval \<Rightarrow> pyval \<Rightarrow> error + pyval" where
  "getitem w d k =
     (case d of
        PRef a \<Rightarrow>
          (case dicts w a of
             None \<Rightarrow> Inl TypeError
           | Some m \<Rightarrow> (case m k of None \<Rightarrow> Inl KeyError | Some v \<Rightarrow> Inr v))
      | _ \<Rightarrow> Inl TypeError)"

definition setitem :: "pyval \<Rightarrow> pyval \<Rightarrow> pyval \<Rightarrow> world \<Rightarrow> error + world" where
  "setitem d k v w =
     (case d of
        PRef a \<Rightarrow>
          (case dicts w a of
             None \<Rightarrow> Inl TypeError
           | Some m \<Rightarrow> Inr (w\<lparr>dicts := (dicts w)(a \<mapsto> m(k \<mapsto> v))\<rparr>))
      | _ \<Rightarrow> Inl TypeError)"

text \<open>The truth value of a Python value; a dictionary is true when it is not empty.\<close>

definition truthy :: "world \<Rightarrow> pyval \<Rightarrow> bool" where
  "truthy w v =
     (case v of
        PNone \<Rightarrow> False
      | PBool b \<Rightarrow> b
      | PInt n \<Rightarrow> n \<noteq> 0
      | PStr s \<Rightarrow> s \<noteq> []
      | PRef a \<Rightarrow> (case dicts w a of None \<Rightarrow> False | Some m \<Rightarrow> m \<noteq> Map.empty))"

text \<open>
  The attributes \<open>movie_converted\<close> and \<open>movie_original\<close> are only ever bound to strings;
  the model has no text for another value in their place.
\<close>

definition str_of :: "pyval \<Rightarrow> error + string" where
  "str_of v = (case v of PStr s \<Rightarrow> Inr s | _ \<Rightarrow> Inl TypeError)"

text \<open>
  The statement \<open>result.snapshots[position] = thumb_filename\<close>, and a look at the
  snapshot set through an instance: \<open>result.snapshots.get(position)\<close>.
\<close>

definition store_snapshot :: "addr \<Rightarrow> int \<Rightarrow> string \<Rightarrow> world \<Rightarrow> error + world" where
  "store_snapshot result position thumb_filename w =
     (case getattr w result ''snapshots'' of
        Inl x \<Rightarrow> Inl x
      | Inr d \<Rightarrow> setitem d (PInt position) (PStr thumb_filename) w)"

definition snapshot_at :: "world \<Rightarrow> addr \<Rightarrow> int \<Rightarrow> error + pyval option" where
  "snapshot_at w result position =
     (case getattr w result ''snapshots'' of
        Inl x \<Rightarrow> Inl x
      | Inr d \<Rightarrow>
          (case d of
             PRef a \<Rightarrow>
               (case dicts w a of None \<Rightarrow> Inl TypeError | Some m \<Rightarrow> Inr (m (PInt position)))
           | _ \<Rightarrow> Inl TypeError))"

section \<open>Metadata extractor\<close>

text \<open>
  \<open>get_video_metadata\<close> runs \<open>mplayer\<close> on the file and lets its line handler fill a new
  dictionary; with fewer than two keys it raises \<open>WrongVideoFormat\<close>.
\<close>

definition mplayer_command :: "string \<Rightarrow> string" where
  "mplayer_command filename =
     py_join '' ''
       [''mplayer'', ''-vo null'', ''-ao null'', ''-frames 0'', ''-identify'',
        escape_shell_arg filename]"

definition dict_of :: "(string \<times> pyval) list \<Rightarrow> (pyval \<rightharpoonup> pyval)" where
  "dict_of assignments = map_of (rev (map (\<lambda>(field, v). (PStr field, v)) assignments))"

definition get_video_metadata :: "env \<Rightarrow> string \<Rightarrow> world \<Rightarrow> (error + pyval \<times> world) option" where
  "get_video_metadata e filename w =
     require_utility e [''mplayer'']
       (and_then (popen e (mplayer_command filename) None () w) (\<lambda>(u, w1).
          case identified e filename of
            Inl x \<Rightarrow> raise x
          | Inr assignments \<Rightarrow>
              if length (remdups (map fst assignments)) < 2 then raise WrongVideoFormat
              else (case new_dict (dict_of assignments) w1 of
                      (a, w2) \<Rightarrow> return (PRef a, w2))))"

section \<open>Snapshot generator\<close>

text \<open>
  The module-level \<open>make_snapshot\<close>:
  \<^verbatim>\<open>
  popen(command)
  # If snapshot is broken (null length), delete it and returns False
  if not os.path.getsize(snapshot_filename) > 0:
      os.remove(snapshot_filename)
      return False
  return True
  \<close>
  \<open>os.path.getsize\<close> raises \<open>OSError\<close> for a path that does not exist.
\<close>

definition getsize :: "world \<Rightarrow> string \<Rightarrow> error + nat" where
  "getsize w path = (case files w path of None \<Rightarrow> Inl OSError | Some n \<Rightarrow> Inr n)"

definition remove :: "string \<Rightarrow> world \<Rightarrow> error + world" where
  "remove path w =
     (case files w path of
        None \<Rightarrow> Inl OSError
      | Some n \<Rightarrow> Inr (w\<lparr>files := (files w)(path := None)\<rparr>))"

definition rename :: "string \<Rightarrow> string \<Rightarrow> world \<Rightarrow> error + world" where
  "rename src dst w =
     (case files w src of
        None \<Rightarrow> Inl OSError
      | Some n \<Rightarrow> Inr (w\<lparr>files := (files w)(src := None, dst \<mapsto> n)\<rparr>))"

definition make_snapshot ::
  "env \<Rightarrow> string \<Rightarrow> string \<Rightarrow> int \<Rightarrow> world \<Rightarrow> (error + bool \<times> world) option" where
  "make_snapshot e video_filename snapshot_filename position w =
     require_utility e [''ffmpeg'']
       (and_then (popen e (snapshot_command video_filename snapshot_filename position) None () w)
          (\<lambda>(u, w1).
             case getsize w1 snapshot_filename of
               Inl x \<Rightarrow> raise x
             | Inr sz \<Rightarrow>
                 if \<not> sz > 0 then
                   (case remove snapshot_filename w1 of
                      Inl x \<Rightarrow> raise x
                    | Inr w2 \<Rightarrow> return (False, w2))
                 else return (True, w1)))"

text \<open>
  The planning part of the method \<open>BaseConverter.make_snapshot(result, num=10)\<close>:
  \<^verbatim>\<open>
  step = float(duration / num)
  step = math.floor(step)
  seconds = xrange(1, duration - 1, step)
  seconds = list(seconds)
  seconds.append(duration)
  seconds.append(math.floor(float(duration) / 2) )
  \<close>
  The duration is an integer, and \<open>/\<close> on integers is the floor division of Python 2.
  Every position goes through \<open>int(position)\<close> in the loop, so the list is kept as
  integers here.

  \<open>float(n)\<close> is the double nearest to the integer \<open>n\<close>, a tie going to the even
  mantissa: an integer of at most 53 bits is kept, a longer one is rounded to its 53
  leading bits.  The result is a whole number again, so \<open>math.floor\<close> leaves a step as it
  is, and halving a double is exact.
\<close>

function bit_length :: "int \<Rightarrow> nat" where
  "bit_length n = (if n \<le> 0 then 0 else Suc (bit_length (n div 2)))"
  by pat_completeness auto
termination
  by (relation "measure nat") auto

declare bit_length.simps [simp del]

definition float_of_int :: "int \<Rightarrow> int" where
  "float_of_int n =
     (if \<bar>n\<bar> \<le> 2 ^ 53 then n
      else let e = bit_length \<bar>n\<bar> - 53;
               q = \<bar>n\<bar> div 2 ^ e;
               r = \<bar>n\<bar> mod 2 ^ e;
               q = (if 2 ^ e < 2 * r \<or> (2 * r = 2 ^ e \<and> odd q) then q + 1 else q)
           in sgn n * (q * 2 ^ e))"

text \<open>
  The arguments of \<open>xrange\<close> are C longs, of 64 bits here: a value out of their range
  raises \<open>OverflowError\<close>, a step of zero raises \<open>ValueError\<close>.  The arguments are
  converted in order, the stop before the step.
\<close>

definition fits_long :: "int \<Rightarrow> bool" where
  "fits_long n \<longleftrightarrow> - (2 ^ 63) \<le> n \<and> n < 2 ^ 63"

function xrange_up :: "int \<Rightarrow> int \<Rightarrow> int \<Rightarrow> int list" where
  "xrange_up i stop step =
     (if 0 < step \<and> i < stop then i # xrange_up (i + step) stop step else [])"
  by pat_completeness auto
termination
  by (relation "measure (\<lambda>(i, stop, step). nat (stop - i))") auto

function xrange_down :: "int \<Rightarrow> int \<Rightarrow> int \<Rightarrow> int list" where
  "xrange_down i stop step =
     (if step < 0 \<and> stop < i then i # xrange_down (i + step) stop step else [])"
  by pat_completeness auto
termination
  by (relation "measure (\<lambda>(i, stop, step). nat (i - stop))") auto

declare xrange_up.simps [simp del] xrange_down.simps [simp del]

definition xrange :: "int \<Rightarrow> int \<Rightarrow> int \<Rightarrow> error + int list" where
  "xrange start stop step =
     (if step = 0 then Inl ValueError
      else if 0 < step then Inr (xrange_up start stop step)
      else Inr (xrange_down start stop step))"

text \<open>
  A duration whose predecessor does not fit a C long raises \<open>OverflowError\<close> in any
  case: in \<open>float\<close>, when the quotient is beyond the doubles, or else in \<open>xrange\<close>, which
  converts its stop before it looks at its step.  The memory that \<open>list(seconds)\<close> takes
  is not modelled.
\<close>

definition plan_seconds :: "python \<Rightarrow> int \<Rightarrow> int \<Rightarrow> error + int list" where
  "plan_seconds py duration num =
     (if num = 0 then Inl ZeroDivisionError
      else if \<not> fits_long (duration - 1) then Inl OverflowError
      else if py = Py27 then Inl TypeError
      else let step = float_of_int (duration div num)
           in if \<not> fits_long step then Inl OverflowError
              else case xrange 1 (duration - 1) step of
                Inl x \<Rightarrow> Inl x
              | Inr seconds \<Rightarrow> Inr (seconds @ [duration] @ [float_of_int duration div 2]))"

text \<open>
  \<^verbatim>\<open>
  def snapshot_filename(self, result, second):
      return '{video_file}_{second}.jpeg'.format(
          video_file = result.movie_converted, second = second)
  \<close>
\<close>

definition snapshot_filename :: "world \<Rightarrow> addr \<Rightarrow> int \<Rightarrow> error + string option" where
  "snapshot_filename w result second =
     (case getattr w result ''movie_converted'' of
        Inl x \<Rightarrow> Inl x
      | Inr v \<Rightarrow>
          (case str_of v of
             Inl x \<Rightarrow> Inl x
           | Inr video_file \<Rightarrow> Inr (Some (video_file @ ''_'' @ str_int second @ ''.jpeg''))))"

text \<open>
  The loop of the method:
  \<^verbatim>\<open>
  for position in seconds:
      position = int(position)
      thumb_filename = self.snapshot_filename(result, position)
      if thumb_filename is None:
          continue
      if make_snapshot(result.movie_converted, thumb_filename, position):
          result.snapshots[position] = thumb_filename
  \<close>
\<close>

fun snapshot_loop :: "env \<Rightarrow> addr \<Rightarrow> int list \<Rightarrow> world \<Rightarrow> (error + world) option" where
  "snapshot_loop e result [] w = return w"
| "snapshot_loop e result (position # seconds) w =
     and_then (lift (snapshot_filename w result position)) (\<lambda>thumb.
       case thumb of
         None \<Rightarrow> snapshot_loop e result seconds w
       | Some thumb_filename \<Rightarrow>
           and_then (lift (getattr w result ''movie_converted'')) (\<lambda>v.
           and_then (lift (str_of v)) (\<lambda>movie_converted.
           and_then (make_snapshot e movie_converted thumb_filename position w) (\<lambda>(ok, w1).
             if ok then
               and_then (lift (store_snapshot result position thumb_filename w1))
                 (\<lambda>w2. snapshot_loop e result seconds w2)
             else snapshot_loop e result seconds w1))))"

definition BaseConverter_make_snapshot ::
  "env \<Rightarrow> python \<Rightarrow> addr \<Rightarrow> int \<Rightarrow> world \<Rightarrow> (error + world) option" where
  "BaseConverter_make_snapshot e py result num w =
     and_then (lift (getattr w result ''movie_info'')) (\<lambda>info.
     and_then (lift (getitem w info (PStr ''duration''))) (\<lambda>v.
       case v of
         PInt duration \<Rightarrow>
           and_then (lift (plan_seconds py duration num)) (\<lambda>seconds.
             snapshot_loop e result seconds w)
       | _ \<Rightarrow> raise TypeError))"

section \<open>Metadata injection\<close>

definition yamdi_command :: "string \<Rightarrow> string \<Rightarrow> string" where
  "yamdi_command input_name output_name =
     py_join '' ''
       [''yamdi'',
        ''-i '' @ escape_shell_arg input_name,
        ''-o '' @ escape_shell_arg output_name]"

definition inject_metadata :: "env \<Rightarrow> string \<Rightarrow> string \<Rightarrow> world \<Rightarrow> (error + world) option" where
  "inject_metadata e input_name output_name w =
     require_utility e [''yamdi'']
       (and_then (popen e (yamdi_command input_name output_name) None () w)
          (\<lambda>(u, w1). return w1))"

text \<open>
  \<^verbatim>\<open>
  def inject_metadata(self, output_file):
      inject_metadata(output_file, output_file + '.yamdi')
      os.remove(output_file)
      os.rename('%s.yamdi' % output_file, output_file)
  \<close>
\<close>

definition BaseConverter_inject_metadata :: "env \<Rightarrow> string \<Rightarrow> world \<Rightarrow> (error + world) option" where
  "BaseConverter_inject_metadata e output_file w =
     and_then (inject_metadata e output_file (output_file @ ''.yamdi'') w) (\<lambda>w1.
     and_then (lift (remove output_file w1)) (\<lambda>w2.
       lift (rename (output_file @ ''.yamdi'') output_file w2)))"

section \<open>Pipeline orchestrator\<close>

text \<open>
  The method \<open>parse_converter_output\<close>.  The one of \<open>MencoderConverter\<close> runs the encode
  command with the percent tracker as handler and returns \<open>True\<close>.  The one of
  \<open>FFMpegConverter\<close> starts with \<open>self.get_encode_command(input_file, output_file)\<close>, a
  method that neither \<open>FFMpegConverter\<close> nor \<open>BaseConverter\<close> has: it raises
  \<open>AttributeError\<close> before anything else happens.
\<close>

definition get_encode_command_of :: "converter \<Rightarrow> string \<Rightarrow> string \<Rightarrow> error + string" where
  "get_encode_command_of self input_file output_file =
     (if family self = MencoderFamily then Inr (get_encode_command self input_file output_file)
      else Inl AttributeError)"

definition parse_converter_output ::
  "env \<Rightarrow> converter \<Rightarrow> string \<Rightarrow> string \<Rightarrow> world \<Rightarrow> (error + bool \<times> world) option" where
  "parse_converter_output e self input_file output_file w =
     and_then (lift (get_encode_command_of self input_file output_file)) (\<lambda>command.
     and_then (popen e command (Some mencoder_line_handler) mencoder_tracker w) (\<lambda>(st, w1).
       return (True, w1\<lparr>reported := reported w1 @ emitted st\<rparr>)))"

text \<open>
  \<^verbatim>\<open>
  def encode(self, input_file, output_file, **kwargs):
      if hasattr(self, 'parse_converter_output'):
          self.parse_converter_output(input_file, output_file, **kwargs)
      command = self.get_encode_command(input_file, output_file)
      popen(command)
      return True
  \<close>
\<close>

definition encode ::
  "env \<Rightarrow> converter \<Rightarrow> string \<Rightarrow> string \<Rightarrow> world \<Rightarrow> (error + bool \<times> world) option" where
  "encode e self input_file output_file w =
     and_then
       (if family self \<noteq> Plain then parse_converter_output e self input_file output_file w
        else return (True, w))
       (\<lambda>(parsed, w1).
     and_then (lift (get_encode_command_of self input_file output_file)) (\<lambda>command.
     and_then (popen e command None () w1) (\<lambda>(u, w2).
       return (True, w2))))"

text \<open>
  \<^verbatim>\<open>
  def convert(self, input_file, output_file, **kwargs):
      result = ConvertResult()
      result.movie_original = input_file
      result.movie_info = self.get_movie_info(input_file)
      result.converted = self.encode(input_file, output_file, **kwargs)
      if result.converted:
          result.movie_converted = output_file
          self.make_snapshot(result)
          self.inject_metadata(output_file)
      return result
  \<close>
\<close>

definition convert ::
  "env \<Rightarrow> python \<Rightarrow> converter \<Rightarrow> string \<Rightarrow> string \<Rightarrow> world \<Rightarrow> (error + addr \<times> world) option" where
  "convert e py self input_file output_file w =
     (case new_ConvertResult w of (result, w0) \<Rightarrow>
        and_then (get_video_metadata e input_file
                    (setattr result ''movie_original'' (PStr input_file) w0)) (\<lambda>(info, w1).
        and_then (encode e self input_file output_file
                    (setattr result ''movie_info'' info w1)) (\<lambda>(ok, w2).
        case setattr result ''converted'' (PBool ok) w2 of w3 \<Rightarrow>
        and_then (lift (getattr w3 result ''converted'')) (\<lambda>converted.
          if truthy w3 converted then
            and_then (BaseConverter_make_snapshot e py result 10
                        (setattr result ''movie_converted'' (PStr output_file) w3)) (\<lambda>w4.
            and_then (BaseConverter_inject_metadata e output_file w4) (\<lambda>w5.
              return (result, w5)))
          else return (result, w3)))))"

section \<open>A concrete environment\<close>

text \<open>
  An environment for running the model on concrete inputs: every utility is installed,
  every command prints nothing and leaves the files as they are, and \<open>mplayer\<close>
  identifies a clip of 100 seconds, 640 pixels wide.
\<close>

definition silent_env :: env where
  "silent_env =
     \<lparr> installed = (\<lambda>command. True),
       stdout_of = (\<lambda>command fs i. []),
       effect = (\<lambda>command fs. fs),
       identified = (\<lambda>filename. Inr [(''duration'', PInt 100), (''width'', PInt 640)]) \<rparr>"

text \<open>
  An environment in which snapshots can fail: every command prints nothing, and once a
  command is done every path exists with 4096 bytes, except the snapshot at second 21,
  which is empty.
\<close>

definition flaky_env :: env where
  "flaky_env =
     \<lparr> installed = (\<lambda>command. True),
       stdout_of = (\<lambda>command fs i. []),
       effect = (\<lambda>command fs path. if path = ''out.flv_21.jpeg'' then Some 0 else Some 4096),
       identified = (\<lambda>filename. Inr [(''duration'', PInt 100), (''width'', PInt 640)]) \<rparr>"

section \<open>Conditions on a run\<close>

text \<open>
  What the snapshot loop needs from the result object: its attribute \<open>movie_converted\<close>
  is the string \<open>mc\<close>, and its attribute \<open>snapshots\<close> is a dictionary of the store.
\<close>

definition loop_ready :: "world \<Rightarrow> addr \<Rightarrow> string \<Rightarrow> bool" where
  "loop_ready w result mc \<longleftrightarrow>
     getattr w result ''movie_converted'' = Inr (PStr mc)
     \<and> (\<exists>a m. getattr w result ''snapshots'' = Inr (PRef a) \<and> dicts w a = Some m)"

text \<open>The output of every command comes to an end, so that \<open>popen(command)\<close> returns.\<close>

definition streams_end :: "env \<Rightarrow> bool" where
  "streams_end e \<longleftrightarrow>
     (\<forall>command fs. \<exists>n. popen_stream (stdout_of e command fs) None () = Some (Inr ((), n)))"

text \<open>
  A world in the middle of a conversion: the module is imported, no file is there yet,
  a result object exists (at address 2) whose \<open>movie_converted\<close> is \<open>out.flv\<close> and whose
  \<open>movie_info\<close> is a dictionary (at address 3) with a duration of 100 seconds.
\<close>

definition halfway :: world where
  "halfway =
     (case new_ConvertResult (imported Map.empty) of
        (result, w) \<Rightarrow>
          (case new_dict (dict_of [(''duration'', PInt 100), (''width'', PInt 640)]) w of
             (info, w1) \<Rightarrow>
               setattr result ''movie_info'' (PRef info)
                 (setattr result ''movie_converted'' (PStr ''out.flv'') w1)))"

text \<open>
  An instance of \<open>ConvertResult\<close> as the module leaves it: the module assigns the
  attributes \<open>movie_original\<close>, \<open>movie_info\<close>, \<open>converted\<close> and \<open>movie_converted\<close> of a
  result, never \<open>snapshots\<close> or \<open>metadata\<close>, so the instance has no entry of its own for
  these two.
\<close>

definition ConvertResult_instance :: "world \<Rightarrow> addr \<Rightarrow> bool" where
  "ConvertResult_instance w r \<longleftrightarrow>
     (\<exists>own. objects w r = Some own \<and> own ''snapshots'' = None \<and> own ''metadata'' = None)"

text \<open>
  The world after the module is imported and \<open>ConvertResult()\<close> has been called twice:
  the two instances are at the addresses 2 and 3.
\<close>

definition two_results :: world where
  "two_results = snd (new_ConvertResult (snd (new_ConvertResult (imported Map.empty))))"

text \<open>
  What a snapshot command does for the second \<open>p\<close> of the clip \<open>mc\<close>: whatever files
  were there, it leaves its output file behind (of whatever size), or it leaves none.
\<close>

definition leaves_snapshot :: "env \<Rightarrow> string \<Rightarrow> int \<Rightarrow> bool" where
  "leaves_snapshot e mc p \<longleftrightarrow>
     (\<forall>fs. effect e (snapshot_command mc (mc @ ''_'' @ str_int p @ ''.jpeg'') p) fs
             (mc @ ''_'' @ str_int p @ ''.jpeg'') \<noteq> None)"

definition leaves_nothing :: "env \<Rightarrow> string \<Rightarrow> int \<Rightarrow> bool" where
  "leaves_nothing e mc p \<longleftrightarrow>
     (\<forall>fs. effect e (snapshot_command mc (mc @ ''_'' @ str_int p @ ''.jpeg'') p) fs
             (mc @ ''_'' @ str_int p @ ''.jpeg'') = None)"

text \<open>
  An environment in which a snapshot goes missing: every command prints nothing, and
  once a command is done every path exists with 4096 bytes, except the snapshot at
  second 21, which is not there.
\<close>

definition lossy_env :: env where
  "lossy_env =
     \<lparr> installed = (\<lambda>command. True),
       stdout_of = (\<lambda>command fs i. []),
       effect = (\<lambda>command fs path. if path = ''out.flv_21.jpeg'' then None else Some 4096),
       identified = (\<lambda>filename. Inr [(''duration'', PInt 100), (''width'', PInt 640)]) \<rparr>"

section \<open>Properties of the escaper\<close>

lemma squote_neq_bslash: "squote \<noteq> bslash" "bslash \<noteq> squote"
  by (simp_all add: squote_def bslash_def)

lemma squote_not_blank: "\<not> is_blank squote" "\<not> is_blank bslash"
  by (simp_all add: is_blank_def squote_def bslash_def newline_def)

lemma squote_neq_others:
  "squote \<noteq> dquote" "squote \<noteq> newline" "bslash \<noteq> dquote" "bslash \<noteq> newline"
  by (simp_all add: squote_def dquote_def newline_def bslash_def)

lemma replace_squote_Cons:
  "replace_str [squote] new (c # cs) =
     (if c = squote then new @ replace_str [squote] new cs
      else c # replace_str [squote] new cs)"
  by simp

text \<open>
  Reading the escaped body inside single quotes: every character of the argument is
  appended to the word in progress, and the closing quote leaves the splitter inside
  the same word.
\<close>

lemma shell_lex_escaped_body:
  "shell_lex Single cur
     (replace_str [squote] [squote, bslash, squote, squote] s @ squote # rest)
   = shell_lex Bare (cur @ s) rest"
proof (induction s arbitrary: cur)
  case Nil
  show ?case by simp
next
  case (Cons c cs)
  show ?case
  proof (cases "c = squote")
    case True
    have "shell_lex Single cur
            (replace_str [squote] [squote, bslash, squote, squote] (c # cs) @ squote # rest)
          = shell_lex Single (cur @ [squote])
              (replace_str [squote] [squote, bslash, squote, squote] cs @ squote # rest)"
      using True
      by (simp add: squote_neq_bslash squote_not_blank squote_neq_others
            del: replace_str.simps add: replace_squote_Cons)
    also have "\<dots> = shell_lex Bare ((cur @ [squote]) @ cs) rest"
      by (rule Cons.IH)
    finally show ?thesis using True by simp
  next
    case False
    have "shell_lex Single cur
            (replace_str [squote] [squote, bslash, squote, squote] (c # cs) @ squote # rest)
          = shell_lex Single (cur @ [c])
              (replace_str [squote] [squote, bslash, squote, squote] cs @ squote # rest)"
      using False by (simp del: replace_str.simps add: replace_squote_Cons)
    also have "\<dots> = shell_lex Bare ((cur @ [c]) @ cs) rest"
      by (rule Cons.IH)
    finally show ?thesis by simp
  qed
qed

text \<open>
  Claim C4.  For every string, splitting the escaped argument with the shell's word
  splitter gives exactly one word, and that word is the original string; this covers
  strings with single quotes, blanks and backslashes.
\<close>

theorem escape_shell_arg_roundtrip:
  "shell_split (escape_shell_arg s) = Some [s]"
proof -
  have "shell_split (escape_shell_arg s)
        = shell_lex Single []
            (replace_str [squote] [squote, bslash, squote, squote] s @ squote # [])"
    by (simp add: shell_split_def escape_shell_arg_def py_replace_def
          squote_not_blank del: replace_str.simps)
  also have "\<dots> = shell_lex Bare ([] @ s) []"
    by (rule shell_lex_escaped_body)
  finally show ?thesis by simp
qed

section \<open>Properties of the command builders\<close>

lemma video_filters_both:
  "true_int W \<Longrightarrow> true_int H \<Longrightarrow>
   video_filters (self\<lparr>width := W, height := H\<rparr>) = ''-vf scale='' @ fmt_int W @ '':'' @ fmt_int H"
  by (simp add: video_filters_def)

lemma video_filters_width_only:
  "true_int W \<Longrightarrow> \<not> true_int U \<Longrightarrow>
   video_filters (self\<lparr>width := W, height := U\<rparr>) = ''-vf scale='' @ fmt_int W @ '':-''"
  by (simp add: video_filters_def)

lemma video_filters_height_only:
  "\<not> true_int U \<Longrightarrow> true_int H \<Longrightarrow>
   video_filters (self\<lparr>width := U, height := H\<rparr>) = ''-vf scale=-:'' @ fmt_int H"
  by (simp add: video_filters_def)

lemma video_filters_neither:
  "\<not> true_int U \<Longrightarrow> \<not> true_int V \<Longrightarrow>
   video_filters (self\<lparr>width := U, height := V\<rparr>) = []"
  by (simp add: video_filters_def)

lemma get_encode_command_filter_last:
  "get_encode_command self input_file output_file =
     py_join '' ''
       [''mencoder'', input_filename input_file, output_filename output_file,
        container self, vcodec self, vcodec_opts self, acodec self, acodec_opts self,
        sample_rate_arg self]
     @ '' '' @ video_filters self"
  by (simp add: get_encode_command_def)

lemma str_int_640: "str_int 640 = ''640''"
  by (simp add: str_int_def str_nat.simps digit_char_def)

lemma str_int_480: "str_int 480 = ''480''"
  by (simp add: str_int_def str_nat.simps digit_char_def)

text \<open>
  Claim C1, as the specification states it, fails: with width 640 and no height the
  builder emits \<open>-vf scale=640:-\<close>, and the text \<open>scale=640:auto\<close> occurs nowhere in
  the command.
\<close>

theorem video_filters_auto_counterexample:
  "video_filters (MencoderConverter\<lparr>width := Some 640, height := None\<rparr>) = ''-vf scale=640:-''
   \<and> \<not> py_in ''scale=640:auto''
         (get_encode_command (MencoderConverter\<lparr>width := Some 640, height := None\<rparr>)
            ''in.avi'' ''out.flv'')"
proof
  show "video_filters (MencoderConverter\<lparr>width := Some 640, height := None\<rparr>) = ''-vf scale=640:-''"
    by (simp add: video_filters_def true_int_def fmt_int_def str_int_640)
  have cmd: "get_encode_command (MencoderConverter\<lparr>width := Some 640, height := None\<rparr>)
               ''in.avi'' ''out.flv''
             = ''mencoder '' @ [squote] @ ''in.avi'' @ [squote]
               @ '' -o out.flv -of lavf -ovc lavc  -oac lavc  -srate 22050 -vf scale=640:-''"
    by (simp add: get_encode_command_def input_filename_def output_filename_def
          container_def vcodec_def vcodec_opts_def acodec_def acodec_opts_def
          sample_rate_arg_def video_filters_def MencoderConverter_def BaseConverter_def true_int_def true_str_def
          fmt_int_def fmt_str_def escape_shell_arg_def py_replace_def squote_def
          str_int_def str_nat.simps digit_char_def)
  show "\<not> py_in ''scale=640:auto''
          (get_encode_command (MencoderConverter\<lparr>width := Some 640, height := None\<rparr>)
             ''in.avi'' ''out.flv'')"
    unfolding cmd by (simp add: squote_def)
qed

text \<open>
  Claim C1, amended.  The scaling expression of the command builder has four shapes.
  With width and height both set the filter segment is \<open>-vf scale=W:H\<close>; with only the
  width set it is \<open>-vf scale=W:-\<close>; with only the height set it is \<open>-vf scale=-:H\<close>; with
  neither set the segment is empty, so no \<open>-vf\<close> is emitted.  (Set means a true value:
  neither \<open>None\<close> nor \<open>0\<close>.)  The segment is the last one of the command, after a
  separating blank.
\<close>

theorem video_filters_four_shapes:
  assumes "true_int W" and "true_int H" and "\<not> true_int U" and "\<not> true_int V"
  shows "video_filters (self\<lparr>width := W, height := H\<rparr>)
           = ''-vf scale='' @ fmt_int W @ '':'' @ fmt_int H
       \<and> video_filters (self\<lparr>width := W, height := V\<rparr>) = ''-vf scale='' @ fmt_int W @ '':-''
       \<and> video_filters (self\<lparr>width := U, height := H\<rparr>) = ''-vf scale=-:'' @ fmt_int H
       \<and> video_filters (self\<lparr>width := U, height := V\<rparr>) = []
       \<and> get_encode_command self input_file output_file =
           py_join '' ''
             [''mencoder'', input_filename input_file, output_filename output_file,
              container self, vcodec self, vcodec_opts self, acodec self, acodec_opts self,
              sample_rate_arg self]
           @ '' '' @ video_filters self"
  using assms
  by (simp only: video_filters_both video_filters_width_only video_filters_height_only
        video_filters_neither get_encode_command_filter_last [symmetric] simp_thms)

theorem video_filters_four_shapes_witness:
  "true_int (Some 640) \<and> true_int (Some 480) \<and> \<not> true_int None \<and> \<not> true_int (Some 0)
   \<and> video_filters (MencoderConverter\<lparr>width := Some 640, height := Some 480\<rparr>)
       = ''-vf scale=640:480''
   \<and> video_filters (MencoderConverter\<lparr>width := Some 640, height := Some 0\<rparr>) = ''-vf scale=640:-''
   \<and> video_filters (MencoderConverter\<lparr>width := None, height := Some 480\<rparr>) = ''-vf scale=-:480''
   \<and> video_filters (MencoderConverter\<lparr>width := None, height := Some 0\<rparr>) = []"
proof -
  have h: "true_int (Some 640)" "true_int (Some 480)" "\<not> true_int None" "\<not> true_int (Some 0)"
    by (simp_all add: true_int_def)
  show ?thesis
    using h video_filters_four_shapes [OF h, of MencoderConverter]
    by (simp add: fmt_int_def str_int_640 str_int_480)
qed

lemma snapshot_command_shape:
  "snapshot_command video snap position =
     ''ffmpeg -ss '' @ str_int position @ '' -i  '' @ escape_shell_arg video
     @ '' -an -vframes 1 -y -f mjpeg '' @ escape_shell_arg snap"
  by (simp add: snapshot_command_def)


section \<open>Properties of the progress trackers\<close>

lemma mencoder_first_percent:
  assumes "pos_match line = Some c" and "int_of_str c = Inr n"
    and "\<not> py_in ''Error parsing option on the command line'' line"
    and "percent st = PInt k"
  shows "mencoder_line_handler line st
           = Inr (st\<lparr>emitted := emitted st @ [(k, n)], percent := PStr c\<rparr>)"
  using assms by (simp add: mencoder_line_handler_def int_of_pyval_def process_handler_def)

lemma mencoder_same_percent:
  assumes "pos_match line = Some c"
    and "\<not> py_in ''Error parsing option on the command line'' line"
    and "percent st = PStr c"
  shows "mencoder_line_handler line st = Inr st"
  using assms by (simp add: mencoder_line_handler_def)

lemma mencoder_new_percent:
  assumes "pos_match line = Some c" and "int_of_str c = Inr n"
    and "\<not> py_in ''Error parsing option on the command line'' line"
    and "percent st = PStr p" and "p \<noteq> c" and "int_of_str p = Inr k"
  shows "mencoder_line_handler line st
           = Inr (st\<lparr>emitted := emitted st @ [(k, n)], percent := PStr c\<rparr>)"
  using assms by (simp add: mencoder_line_handler_def int_of_pyval_def process_handler_def)

lemma mencoder_error_signature:
  "py_in ''Error parsing option on the command line'' line \<Longrightarrow>
   mencoder_line_handler line st = Inl WrongCommandLine"
  by (simp add: mencoder_line_handler_def)

lemma int_of_str_10: "int_of_str ''10'' = Inr 10"
  by (simp add: int_of_str_def strip_def is_space_def all_digits_def is_digit_def
        nat_of_digits_def digit_val_def is_digit_def)

lemma int_of_str_25: "int_of_str ''25'' = Inr 25"
  by (simp add: int_of_str_def strip_def is_space_def all_digits_def is_digit_def
        nat_of_digits_def digit_val_def is_digit_def)

text \<open>
  Claim C6.  Three lines are fed to the percent-marker tracker in its initial state, each
  free of the error signature: the pattern finds the percent \<open>10\<close> in the first and in
  the second, and \<open>25\<close> in the third.  The run makes exactly two calls of the progress
  handler, \<open>(0, 10)\<close> and then \<open>(10, 25)\<close>: the repeated percent is suppressed, and each
  new percent gives one event with the old and the new value.
\<close>

theorem mencoder_percent_events:
  assumes "pos_match l1 = Some ''10''" and "pos_match l2 = Some ''10''"
    and "pos_match l3 = Some ''25''"
    and "\<not> py_in ''Error parsing option on the command line'' l1"
    and "\<not> py_in ''Error parsing option on the command line'' l2"
    and "\<not> py_in ''Error parsing option on the command line'' l3"
  shows "feed mencoder_line_handler [l1, l2, l3] mencoder_tracker
           = Inr \<lparr> percent = PStr ''25'', emitted = [(0, 10), (10, 25)] \<rparr>"
proof -
  let ?s1 = "\<lparr> percent = PStr ''10'', emitted = [(0, 10)] \<rparr>"
  have 1: "mencoder_line_handler l1 mencoder_tracker = Inr ?s1"
    using mencoder_first_percent [OF assms(1) int_of_str_10 assms(4), of mencoder_tracker 0]
    by (simp add: mencoder_tracker_def)
  have 2: "mencoder_line_handler l2 ?s1 = Inr ?s1"
    using mencoder_same_percent [OF assms(2) assms(5), of ?s1] by simp
  have 3: "mencoder_line_handler l3 ?s1
             = Inr \<lparr> percent = PStr ''25'', emitted = [(0, 10), (10, 25)] \<rparr>"
    using mencoder_new_percent [OF assms(3) int_of_str_25 assms(6), of ?s1 "''10''" 10]
    by (simp add: int_of_str_10)
  show ?thesis by (simp add: 1 2 3)
qed

lemma pos_line_10a:
  "pos_match ''Pos:   4.0s    100f (10%)  0.00fps Trem:   0min   0mb  A-V:0.000 [0:0]''
     = Some ''10''"
  by (simp add: pos_match_def percent_here_def is_space_def is_digit_def newline_def)

lemma pos_line_10b:
  "pos_match ''Pos:   4.4s    110f (10%) 25.10fps Trem:   0min   0mb  A-V:0.000 [0:0]''
     = Some ''10''"
  by (simp add: pos_match_def percent_here_def is_space_def is_digit_def newline_def)

lemma pos_line_25:
  "pos_match ''Pos:  10.0s    250f (25%) 25.30fps Trem:   0min   0mb  A-V:0.000 [0:0]''
     = Some ''25''"
  by (simp add: pos_match_def percent_here_def is_space_def is_digit_def newline_def)

theorem mencoder_percent_events_witness:
  "pos_match ''Pos:   4.0s    100f (10%)  0.00fps Trem:   0min   0mb  A-V:0.000 [0:0]''
     = Some ''10''
   \<and> pos_match ''Pos:   4.4s    110f (10%) 25.10fps Trem:   0min   0mb  A-V:0.000 [0:0]''
     = Some ''10''
   \<and> pos_match ''Pos:  10.0s    250f (25%) 25.30fps Trem:   0min   0mb  A-V:0.000 [0:0]''
     = Some ''25''
   \<and> feed mencoder_line_handler
       [''Pos:   4.0s    100f (10%)  0.00fps Trem:   0min   0mb  A-V:0.000 [0:0]'',
        ''Pos:   4.4s    110f (10%) 25.10fps Trem:   0min   0mb  A-V:0.000 [0:0]'',
        ''Pos:  10.0s    250f (25%) 25.30fps Trem:   0min   0mb  A-V:0.000 [0:0]'']
       mencoder_tracker
     = Inr \<lparr> percent = PStr ''25'', emitted = [(0, 10), (10, 25)] \<rparr>"
proof -
  have e1: "\<not> py_in ''Error parsing option on the command line''
      ''Pos:   4.0s    100f (10%)  0.00fps Trem:   0min   0mb  A-V:0.000 [0:0]''"
    by simp
  have e2: "\<not> py_in ''Error parsing option on the command line''
      ''Pos:   4.4s    110f (10%) 25.10fps Trem:   0min   0mb  A-V:0.000 [0:0]''"
    by simp
  have e3: "\<not> py_in ''Error parsing option on the command line''
      ''Pos:  10.0s    250f (25%) 25.30fps Trem:   0min   0mb  A-V:0.000 [0:0]''"
    by simp
  show ?thesis
    using mencoder_percent_events [OF pos_line_10a pos_line_10b pos_line_25 e1 e2 e3]
      pos_line_10a pos_line_10b pos_line_25
    by simp
qed

text \<open>
  The first comparison of a run is between the integer \<open>0\<close> and a string, which are never
  equal: a first line at 0 percent gives the event \<open>(0, 0)\<close>.
\<close>

lemma mencoder_zero_percent_first:
  "feed mencoder_line_handler [''Pos:   0.0s      1f ( 0%)  0.00fps''] mencoder_tracker
     = Inr \<lparr> percent = PStr ''0'', emitted = [(0, 0)] \<rparr>"
  by (simp add: mencoder_line_handler_def mencoder_tracker_def pos_match_def percent_here_def
        is_space_def is_digit_def newline_def int_of_pyval_def int_of_str_def strip_def
        all_digits_def nat_of_digits_def digit_val_def process_handler_def)

subsection \<open>The ffmpeg tracker\<close>

lemma int_of_str_dd: "int_of_str ''dd'' = Inl ValueError"
  by (simp add: int_of_str_def strip_def is_space_def all_digits_def is_digit_def)

lemma time2sec_dd: "time2sec (''dd'', g2, g3, g4) = Inl ValueError"
  by (simp add: time2sec_def int_of_str_dd)

lemma re_duration_groups: "re_duration line = Some m \<Longrightarrow> m = (''dd'', ''dd'', ''dd'', ''dd'')"
  by (auto simp: re_duration_def split: if_splits list.splits)

lemma re_duration_not_progress: "re_duration line = Some m \<Longrightarrow> re_progress line = None"
proof -
  assume "re_duration line = Some m"
  then have "take 18 line = ''Duration: dd:dd:dd''"
    by (auto simp: re_duration_def split: if_splits)
  then have "take 14 (take 18 line) = ''Duration: dd:d''"
    by simp
  then have "take 14 line = ''Duration: dd:d''"
    by simp
  then show ?thesis
    by (simp add: re_progress_def)
qed

text \<open>
  A line that matches the duration pattern raises \<open>ValueError\<close> (its groups are the
  letters \<open>dd\<close>); a line that matches the progress pattern raises \<open>UnboundLocalError\<close>
  (no such line matches the duration pattern); any other line leaves the tracker as it
  is.  So the handler never reports progress.
\<close>

lemma ffmpeg_line_handler_cases:
  "ffmpeg_line_handler line st =
     (if re_duration line \<noteq> None then Inl ValueError
      else if re_progress line \<noteq> None then Inl UnboundLocalError
      else Inr st)"
proof (cases "re_duration line")
  case None
  then show ?thesis
    by (cases "re_progress line") (simp_all add: ffmpeg_line_handler_def ffmpeg_progress_def)
next
  case (Some m)
  then have "m = (''dd'', ''dd'', ''dd'', ''dd'')"
    by (rule re_duration_groups)
  with Some show ?thesis
    by (simp add: ffmpeg_line_handler_def time2sec_dd)
qed

lemma ffmpeg_feed_no_event: "feed ffmpeg_line_handler lines st = Inr st' \<Longrightarrow> st' = st"
proof (induction lines)
  case Nil
  then show ?case by simp
next
  case (Cons line lines)
  then show ?case
    by (auto simp: ffmpeg_line_handler_cases split: if_splits)
qed

lemma ffmpeg_literal_duration_line:
  "ffmpeg_line_handler ''Duration: dd:dd:dd.dd'' st = Inl ValueError"
  by (simp add: ffmpeg_line_handler_cases re_duration_def newline_def)

text \<open>
  Claim C2 against the code.  The tracker is fed a duration line announcing 100 seconds
  and then a timestamp line at 50 seconds.  Neither line matches the patterns of the
  code, the tracker ends in its initial state, and no progress event was emitted (the
  claim expects the event \<open>(0, 50)\<close>).
\<close>

theorem ffmpeg_tracker_emits_nothing:
  "feed ffmpeg_line_handler
     [''Duration: 00:01:40.00'' @ [newline], ''time=00:00:50.00'' @ [newline]] ffmpeg_tracker
     = Inr ffmpeg_tracker
   \<and> emitted ffmpeg_tracker = []"
  by (simp add: ffmpeg_line_handler_cases re_duration_def re_progress_def ffmpeg_tracker_def)

section \<open>Properties of the streaming process runner\<close>

lemma popen_loop_blank:
  "reads i = [] \<Longrightarrow>
   popen_loop reads handler miss_count eof_count i st =
     (if eof_count > miss_count then Some (Inr (st, Suc i))
      else popen_loop reads handler miss_count (eof_count + 1) (Suc i) st)"
  by (subst popen_loop.simps) simp

lemma popen_loop_line:
  "reads i \<noteq> [] \<Longrightarrow>
   popen_loop reads handler miss_count eof_count i st =
     (case handler of
        None \<Rightarrow> popen_loop reads handler miss_count 0 (Suc i) st
      | Some h \<Rightarrow>
          (case h (reads i) st of
             Inl e \<Rightarrow> Some (Inl e)
           | Inr st' \<Rightarrow> popen_loop reads handler miss_count 0 (Suc i) st'))"
  by (subst popen_loop.simps) simp

text \<open>
  Once the stream has gone blank for good, the loop returns: it makes
  \<open>miss_count + 2 - eof_count\<close> more reads, the last of which breaks the loop.
\<close>

lemma popen_loop_blank_tail:
  assumes "\<forall>j\<ge>i. reads j = []" and "eof_count \<le> miss_count + 1"
  shows "popen_loop reads handler miss_count eof_count i st
           = Some (Inr (st, i + nat (miss_count + 2 - eof_count)))"
  using assms
proof (induction "nat (miss_count + 1 - eof_count)" arbitrary: eof_count i)
  case 0
  then have "eof_count > miss_count" and "miss_count + 2 - eof_count = 1"
    by simp_all
  moreover have "reads i = []"
    using "0.prems" by simp
  ultimately show ?case
    by (simp add: popen_loop_blank)
next
  case (Suc n)
  then have le: "\<not> eof_count > miss_count"
    by simp
  have blank: "reads i = []"
    using Suc.prems by simp
  have "popen_loop reads handler miss_count (eof_count + 1) (Suc i) st
          = Some (Inr (st, Suc i + nat (miss_count + 2 - (eof_count + 1))))"
  proof (rule Suc.hyps(1))
    show "n = nat (miss_count + 1 - (eof_count + 1))"
      using Suc.hyps(2) by simp
    show "\<forall>j\<ge>Suc i. reads j = []"
      using Suc.prems by simp
    show "eof_count + 1 \<le> miss_count + 1"
      using le by simp
  qed
  moreover have "Suc i + nat (miss_count + 2 - (eof_count + 1))
                   = i + nat (miss_count + 2 - eof_count)"
    using le by simp
  ultimately show ?case
    using le blank by (simp add: popen_loop_blank)
qed

text \<open>
  A process that prints finitely many non-empty lines and closes its output: the runner
  returns, after having called the handler on each line in order and made seven more
  reads at the end of the stream.
\<close>

lemma popen_loop_lines:
  assumes "\<forall>j<length ls. reads (i + j) = ls ! j" and "\<forall>j\<ge>i + length ls. reads j = []"
    and "\<forall>l\<in>set ls. l \<noteq> []" and "0 \<le> miss_count + 1"
  shows "popen_loop reads (Some h) miss_count 0 i st
           = (case feed h ls st of
                Inl e \<Rightarrow> Some (Inl e)
              | Inr st' \<Rightarrow> Some (Inr (st', i + length ls + nat (miss_count + 2))))"
  using assms
proof (induction ls arbitrary: i st)
  case Nil
  then show ?case
    using popen_loop_blank_tail [of i reads 0 miss_count "Some h" st] by simp
next
  case (Cons l ls)
  have here: "reads i = l"
    using Cons.prems(1) by (metis add.right_neutral length_greater_0_conv list.distinct(1) nth_Cons_0)
  have nonblank: "reads i \<noteq> []"
    using here Cons.prems(3) by simp
  show ?case
  proof (cases "h l st")
    case (Inl e)
    then show ?thesis
      using nonblank here by (simp add: popen_loop_line)
  next
    case (Inr st')
    have "popen_loop reads (Some h) miss_count 0 (Suc i) st'
            = (case feed h ls st' of
                 Inl e \<Rightarrow> Some (Inl e)
               | Inr st'' \<Rightarrow> Some (Inr (st'', Suc i + length ls + nat (miss_count + 2))))"
    proof (rule Cons.IH)
      show "\<forall>j<length ls. reads (Suc i + j) = ls ! j"
      proof (intro allI impI)
        fix j assume "j < length ls"
        then have "reads (i + Suc j) = (l # ls) ! Suc j"
          using Cons.prems(1) by (metis Suc_less_eq length_Cons)
        then show "reads (Suc i + j) = ls ! j"
          by simp
      qed
      show "\<forall>j\<ge>Suc i + length ls. reads j = []"
        using Cons.prems(2) by simp
      show "\<forall>l\<in>set ls. l \<noteq> []"
        using Cons.prems(3) by simp
      show "0 \<le> miss_count + 1"
        by (rule Cons.prems(4))
    qed
    then show ?thesis
      using nonblank here Inr by (simp add: popen_loop_line split: sum.splits)
  qed
qed

lemma popen_stream_reads_of:
  assumes "\<forall>l\<in>set ls. l \<noteq> []"
  shows "popen_stream (reads_of ls) (Some h) st
           = (case feed h ls st of
                Inl e \<Rightarrow> Some (Inl e)
              | Inr st' \<Rightarrow> Some (Inr (st', length ls + 7)))"
  using popen_loop_lines [of ls "reads_of ls" 0 5 h st] assms
  by (simp add: popen_stream_def reads_of_def split: sum.splits)

text \<open>A read that is not blank sets the counter of blank reads back to zero.\<close>

lemma popen_loop_line_resets:
  "reads i \<noteq> [] \<Longrightarrow>
   popen_loop reads None miss_count eof_count i st
     = popen_loop reads None miss_count 0 (Suc i) st"
  by (simp add: popen_loop_line)

text \<open>
  Claim C7 against the code.  With the default threshold of 5, a process that prints
  nothing is read seven times before the call returns: six consecutive blank reads are
  tolerated, and it is the seventh that ends the loop.  After six consecutive blank
  reads the stream is not yet finished: a line that arrives at the seventh read is
  still handed to the handler, and the count starts again (seven more reads).
\<close>

theorem popen_tolerates_six_blank_reads:
  "popen_stream (\<lambda>i. []) None () = Some (Inr ((), 7))
   \<and> popen_stream (\<lambda>i. if i = 6 then ''late'' @ [newline] else []) (Some keep_line) []
       = Some (Inr ([''late'' @ [newline]], 14))"
proof
  show "popen_stream (\<lambda>i. []) None () = Some (Inr ((), 7))"
    using popen_loop_blank_tail [of 0 "\<lambda>i. []" 0 5 None "()"]
    by (simp add: popen_stream_def)
next
  let ?reads = "\<lambda>i::nat. if i = 6 then ''late'' @ [newline] else []"
  have tail: "popen_loop ?reads (Some keep_line) 5 0 7 [''late'' @ [newline]]
                = Some (Inr ([''late'' @ [newline]], 14))"
    using popen_loop_blank_tail [of 7 ?reads 0 5 "Some keep_line" "[''late'' @ [newline]]"]
    by simp
  have "popen_loop ?reads (Some keep_line) 5 0 0 []
          = popen_loop ?reads (Some keep_line) 5 6 6 []"
    by (simp add: popen_loop_blank eval_nat_numeral)
  also have "\<dots> = popen_loop ?reads (Some keep_line) 5 0 (Suc 6) [''late'' @ [newline]]"
    by (simp add: popen_loop_line keep_line_def)
  also have "Suc 6 = (7::nat)"
    by simp
  finally show "popen_stream ?reads (Some keep_line) [] = Some (Inr ([''late'' @ [newline]], 14))"
    using tail by (simp add: popen_stream_def)
qed

section \<open>Properties of the pipeline\<close>

subsection \<open>Sequencing\<close>

lemma and_then_simps [simp]:
  "and_then None f = None"
  "and_then (Some (Inl x)) f = Some (Inl x)"
  "and_then (Some (Inr y)) f = f y"
  "and_then (raise x) f = Some (Inl x)"
  "and_then (return y) f = f y"
  "and_then (lift (Inl x)) f = Some (Inl x)"
  "and_then (lift (Inr y)) f = f y"
  by (simp_all add: and_then_def raise_def return_def lift_def)

lemma and_then_returns:
  "and_then m f = Some (Inr z) \<Longrightarrow> \<exists>y. m = Some (Inr y) \<and> f y = Some (Inr z)"
  by (auto simp: and_then_def split: option.splits sum.splits)

lemma lift_returns [simp]: "lift r = Some (Inr y) \<longleftrightarrow> r = Inr y"
  by (simp add: lift_def)

lemma return_returns [simp]: "return y = Some (Inr z) \<longleftrightarrow> y = z"
  by (simp add: return_def)

lemma raise_returns [simp]: "raise x \<noteq> Some (Inr z)"
  by (simp add: raise_def)

lemma require_utility_single:
  "require_utility e [u] body = (if installed e u then body else Some (Inl UtilityNotFound))"
  by (simp add: check_utility_def)

lemma popen_returns:
  assumes "popen e command handler st w = Some (Inr (st', w'))"
  shows "w' = w\<lparr>files := effect e command (files w), launched := launched w @ [command]\<rparr>"
  using assms by (auto simp: popen_def split: option.splits sum.splits)

lemma popen_silent:
  "popen silent_env command None () w = Some (Inr ((), w\<lparr>launched := launched w @ [command]\<rparr>))"
proof -
  have "popen_stream (\<lambda>i. []) None () = Some (Inr ((), 7))"
    using popen_loop_blank_tail [of 0 "\<lambda>i. []" 0 5 None "()"]
    by (simp add: popen_stream_def)
  then show ?thesis
    by (simp add: popen_def silent_env_def)
qed

subsection \<open>The module-level snapshot function\<close>

lemma make_snapshot_after_popen:
  assumes "installed e ''ffmpeg''"
    and "popen e (snapshot_command video snap position) None () w = Some (Inr ((), w1))"
  shows "make_snapshot e video snap position w =
           (case getsize w1 snap of
              Inl x \<Rightarrow> Some (Inl x)
            | Inr sz \<Rightarrow>
                if sz = 0 then
                  (case remove snap w1 of
                     Inl x \<Rightarrow> Some (Inl x)
                   | Inr w2 \<Rightarrow> Some (Inr (False, w2)))
                else Some (Inr (True, w1)))"
  using assms
  by (simp add: make_snapshot_def check_utility_def raise_def return_def split: sum.splits)

lemma make_snapshot_cases:
  assumes "installed e ''ffmpeg''"
    and "popen e (snapshot_command video snap position) None () w = Some (Inr ((), w1))"
  shows "make_snapshot e video snap position w =
           (case files w1 snap of
              None \<Rightarrow> Some (Inl OSError)
            | Some n \<Rightarrow>
                if n = 0 then Some (Inr (False, w1\<lparr>files := (files w1)(snap := None)\<rparr>))
                else Some (Inr (True, w1)))"
  by (simp add: make_snapshot_after_popen [OF assms] getsize_def remove_def
        split: option.splits)

text \<open>
  Claim C5, as the specification states it, fails.  In a world where \<open>ffmpeg\<close> leaves no
  output file behind, \<open>make_snapshot\<close> does not return false: \<open>os.path.getsize\<close> raises
  \<open>OSError\<close> and the function lets it through.
\<close>

theorem make_snapshot_absent_file_counterexample:
  "make_snapshot silent_env ''movie.flv'' ''movie.flv_1.jpeg'' 1 (imported Map.empty)
     = Some (Inl OSError)"
proof -
  have "installed silent_env ''ffmpeg''"
    by (simp add: silent_env_def)
  then show ?thesis
    by (simp add: make_snapshot_def check_utility_def popen_silent getsize_def raise_def
          imported_def)
qed

text \<open>
  Claim C5, amended.  Let \<open>ffmpeg\<close> be installed and let the thumbnail subprocess be
  drained, leaving the world \<open>w1\<close>.  If the output file exists with size zero, it is
  deleted and the call returns false; if it exists with a positive size, the call
  returns true and the file stays; if the output file is absent, the call raises
  \<open>OSError\<close> instead of reporting failure.
\<close>

theorem make_snapshot_outcome:
  assumes "installed e ''ffmpeg''"
    and "popen e (snapshot_command video snap position) None () w = Some (Inr ((), w1))"
  shows "make_snapshot e video snap position w =
           (case files w1 snap of
              None \<Rightarrow> Some (Inl OSError)
            | Some n \<Rightarrow>
                if n = 0 then Some (Inr (False, w1\<lparr>files := (files w1)(snap := None)\<rparr>))
                else Some (Inr (True, w1)))"
  using assms
  by (simp add: make_snapshot_def check_utility_def getsize_def remove_def raise_def
        return_def split: option.splits)

theorem make_snapshot_outcome_witness:
  "installed silent_env ''ffmpeg''
   \<and> make_snapshot silent_env ''movie.flv'' ''movie.flv_1.jpeg'' 1
       (imported [''movie.flv_1.jpeg'' \<mapsto> 0])
     = Some (Inr (False, (imported Map.empty)
          \<lparr>launched := [snapshot_command ''movie.flv'' ''movie.flv_1.jpeg'' 1]\<rparr>))
   \<and> make_snapshot silent_env ''movie.flv'' ''movie.flv_1.jpeg'' 1
       (imported [''movie.flv_1.jpeg'' \<mapsto> 4096])
     = Some (Inr (True, (imported [''movie.flv_1.jpeg'' \<mapsto> 4096])
          \<lparr>launched := [snapshot_command ''movie.flv'' ''movie.flv_1.jpeg'' 1]\<rparr>))"
proof -
  have i: "installed silent_env ''ffmpeg''"
    by (simp add: silent_env_def)
  have p: "popen silent_env (snapshot_command ''movie.flv'' ''movie.flv_1.jpeg'' 1) None () w
             = Some (Inr ((), w\<lparr>launched :=
                 launched w @ [snapshot_command ''movie.flv'' ''movie.flv_1.jpeg'' 1]\<rparr>))" for w
    by (rule popen_silent)
  show ?thesis
    using i
      make_snapshot_outcome [OF i p, where w = "imported [''movie.flv_1.jpeg'' \<mapsto> 0]"]
      make_snapshot_outcome [OF i p, where w = "imported [''movie.flv_1.jpeg'' \<mapsto> 4096]"]
    by (simp add: imported_def)
qed

subsection \<open>The snapshot loop\<close>

lemma getattr_objects: "objects w' = objects w \<Longrightarrow> getattr w' obj name = getattr w obj name"
  by (simp add: getattr_def)

lemma popen_None_returns:
  assumes "streams_end e"
  shows "popen e command None () w
           = Some (Inr ((), w\<lparr>files := effect e command (files w),
                                launched := launched w @ [command]\<rparr>))"
proof -
  obtain n where "popen_stream (stdout_of e command (files w)) None () = Some (Inr ((), n))"
    using assms unfolding streams_end_def by blast
  then show ?thesis
    by (simp add: popen_def)
qed

lemma make_snapshot_frame:
  assumes "make_snapshot e video snap position w = Some (Inr (ok, w1))"
  shows "objects w1 = objects w \<and> dicts w1 = dicts w \<and> reported w1 = reported w
         \<and> fresh w1 = fresh w
         \<and> launched w1 = launched w @ [snapshot_command video snap position]"
proof -
  from assms have inst: "installed e ''ffmpeg''"
    by (auto simp: make_snapshot_def check_utility_def split: if_splits)
  with assms obtain u w0 where
    p: "popen e (snapshot_command video snap position) None () w = Some (Inr (u, w0))"
    by (auto simp: make_snapshot_def check_utility_def dest!: and_then_returns)
  then have p': "popen e (snapshot_command video snap position) None () w = Some (Inr ((), w0))"
    by simp
  have w0: "w0 = w\<lparr>files := effect e (snapshot_command video snap position) (files w),
                   launched := launched w @ [snapshot_command video snap position]\<rparr>"
    using p by (rule popen_returns)
  show ?thesis
    using assms make_snapshot_cases [OF inst p'] w0
    by (auto split: option.splits if_splits)
qed

lemma make_snapshot_runs:
  assumes "installed e ''ffmpeg''" and "streams_end e"
    and "effect e (snapshot_command video snap position) (files w) snap \<noteq> None"
  shows "\<exists>ok w1. make_snapshot e video snap position w = Some (Inr (ok, w1))"
proof -
  let ?w0 = "w\<lparr>files := effect e (snapshot_command video snap position) (files w),
               launched := launched w @ [snapshot_command video snap position]\<rparr>"
  have p: "popen e (snapshot_command video snap position) None () w = Some (Inr ((), ?w0))"
    using assms(2) by (rule popen_None_returns)
  show ?thesis
    using make_snapshot_cases [OF assms(1) p] assms(3)
    by (auto split: option.splits)
qed

lemma store_snapshot_ready:
  assumes "getattr w result ''snapshots'' = Inr (PRef a)" and "dicts w a = Some m"
  shows "store_snapshot result position thumb w
           = Inr (w\<lparr>dicts := (dicts w)(a \<mapsto> m(PInt position \<mapsto> PStr thumb))\<rparr>)"
  using assms by (simp add: store_snapshot_def setitem_def)

lemma snapshot_loop_Cons:
  assumes "snapshot_filename w result p = Inr (Some thumb)"
    and "getattr w result ''movie_converted'' = Inr (PStr mc)"
    and "make_snapshot e mc thumb p w = Some (Inr (ok, w1))"
  shows "snapshot_loop e result (p # ps) w =
           (if ok then and_then (lift (store_snapshot result p thumb w1))
                         (\<lambda>w2. snapshot_loop e result ps w2)
            else snapshot_loop e result ps w1)"
  by (simp add: assms str_of_def)

lemma loop_readyI:
  assumes "getattr w result ''movie_converted'' = Inr (PStr mc)"
    and "getattr w result ''snapshots'' = Inr (PRef a)" and "dicts w a = Some m"
  shows "loop_ready w result mc"
  unfolding loop_ready_def using assms by blast

lemma snapshot_loop_step:
  assumes "installed e ''ffmpeg''" and "streams_end e"
    and "\<forall>fs. effect e (snapshot_command mc (mc @ ''_'' @ str_int p @ ''.jpeg'') p) fs
               (mc @ ''_'' @ str_int p @ ''.jpeg'') \<noteq> None"
    and "loop_ready w result mc"
  shows "\<exists>w1. loop_ready w1 result mc
           \<and> launched w1 = launched w @ [snapshot_command mc (mc @ ''_'' @ str_int p @ ''.jpeg'') p]
           \<and> objects w1 = objects w
           \<and> snapshot_loop e result (p # ps) w = snapshot_loop e result ps w1"
proof -
  define thumb where "thumb = mc @ ''_'' @ str_int p @ ''.jpeg''"
  from assms(4) obtain a m where
    mc: "getattr w result ''movie_converted'' = Inr (PStr mc)" and
    sn: "getattr w result ''snapshots'' = Inr (PRef a)" and
    dm: "dicts w a = Some m"
    unfolding loop_ready_def by blast
  have fn: "snapshot_filename w result p = Inr (Some thumb)"
    using mc by (simp add: snapshot_filename_def str_of_def thumb_def)
  have "effect e (snapshot_command mc thumb p) (files w) thumb \<noteq> None"
    using assms(3) unfolding thumb_def by (rule spec)
  then have "\<exists>ok w1. make_snapshot e mc thumb p w = Some (Inr (ok, w1))"
    by (rule make_snapshot_runs [OF assms(1) assms(2)])
  then obtain ok w1 where ms: "make_snapshot e mc thumb p w = Some (Inr (ok, w1))"
    by blast
  have fr: "objects w1 = objects w" "dicts w1 = dicts w"
    "launched w1 = launched w @ [snapshot_command mc thumb p]"
    using make_snapshot_frame [OF ms] by simp_all
  have sn1: "getattr w1 result ''snapshots'' = Inr (PRef a)"
    using sn by (simp add: getattr_objects [OF fr(1)])
  have mc1: "getattr w1 result ''movie_converted'' = Inr (PStr mc)"
    using mc by (simp add: getattr_objects [OF fr(1)])
  have dm1: "dicts w1 a = Some m"
    using dm fr(2) by simp
  note unfold = snapshot_loop_Cons [OF fn mc ms, of ps]
  show ?thesis
  proof (cases ok)
    case False
    have "snapshot_loop e result (p # ps) w = snapshot_loop e result ps w1"
      using unfold False by simp
    moreover have "loop_ready w1 result mc"
      using mc1 sn1 dm1 by (rule loop_readyI)
    ultimately show ?thesis
      using fr unfolding thumb_def by blast
  next
    case True
    define w2 where "w2 = w1\<lparr>dicts := (dicts w1)(a \<mapsto> m(PInt p \<mapsto> PStr thumb))\<rparr>"
    have st: "store_snapshot result p thumb w1 = Inr w2"
      unfolding w2_def using sn1 dm1 by (rule store_snapshot_ready)
    have o2: "objects w2 = objects w1" and l2: "launched w2 = launched w1"
      and d2: "dicts w2 a = Some (m(PInt p \<mapsto> PStr thumb))"
      by (simp_all add: w2_def)
    have "snapshot_loop e result (p # ps) w = snapshot_loop e result ps w2"
      using unfold True st by simp
    moreover have "loop_ready w2 result mc"
    proof (rule loop_readyI)
      show "getattr w2 result ''movie_converted'' = Inr (PStr mc)"
        using mc1 by (simp add: getattr_objects [OF o2])
      show "getattr w2 result ''snapshots'' = Inr (PRef a)"
        using sn1 by (simp add: getattr_objects [OF o2])
      show "dicts w2 a = Some (m(PInt p \<mapsto> PStr thumb))"
        by (rule d2)
    qed
    moreover have "launched w2 = launched w @ [snapshot_command mc thumb p]"
      using fr l2 by simp
    moreover have "objects w2 = objects w"
      using fr o2 by simp
    ultimately show ?thesis
      unfolding thumb_def by blast
  qed
qed

lemma snapshot_loop_runs:
  assumes "installed e ''ffmpeg''" and "streams_end e"
    and "\<forall>p fs. effect e (snapshot_command mc (mc @ ''_'' @ str_int p @ ''.jpeg'') p) fs
                 (mc @ ''_'' @ str_int p @ ''.jpeg'') \<noteq> None"
    and "loop_ready w result mc"
  shows "\<exists>w'. snapshot_loop e result ps w = Some (Inr w')
           \<and> launched w' = launched w
               @ map (\<lambda>p. snapshot_command mc (mc @ ''_'' @ str_int p @ ''.jpeg'') p) ps
           \<and> objects w' = objects w"
  using assms(4)
proof (induction ps arbitrary: w)
  case Nil
  then show ?case by (simp add: return_def)
next
  case (Cons p ps)
  have here: "\<forall>fs. effect e (snapshot_command mc (mc @ ''_'' @ str_int p @ ''.jpeg'') p) fs
               (mc @ ''_'' @ str_int p @ ''.jpeg'') \<noteq> None"
    using assms(3) by blast
  obtain w1 where
    r1: "loop_ready w1 result mc" and
    l1: "launched w1 = launched w @ [snapshot_command mc (mc @ ''_'' @ str_int p @ ''.jpeg'') p]" and
    o1: "objects w1 = objects w" and
    s1: "snapshot_loop e result (p # ps) w = snapshot_loop e result ps w1"
    using snapshot_loop_step [OF assms(1) assms(2) here Cons.prems, of ps] by blast
  obtain w' where
    "snapshot_loop e result ps w1 = Some (Inr w')" and
    "launched w' = launched w1
       @ map (\<lambda>p. snapshot_command mc (mc @ ''_'' @ str_int p @ ''.jpeg'') p) ps" and
    "objects w' = objects w1"
    using Cons.IH [OF r1] by blast
  then show ?case
    using l1 o1 s1 by simp
qed

lemma plan_seconds_100_10:
  "plan_seconds Py26 100 10 = Inr [1, 11, 21, 31, 41, 51, 61, 71, 81, 91, 100, 50]"
  by (simp add: plan_seconds_def fits_long_def float_of_int_def xrange_def xrange_up.simps)

lemma popen_stream_silent: "popen_stream (\<lambda>i. []) None () = Some (Inr ((), 7))"
  using popen_loop_blank_tail [of 0 "\<lambda>i. []" 0 5 None "()"]
  by (simp add: popen_stream_def)

lemma streams_end_flaky: "streams_end flaky_env"
  by (simp add: streams_end_def flaky_env_def popen_stream_silent)

lemma halfway_attrs:
  "getattr halfway 2 ''movie_converted'' = Inr (PStr ''out.flv'')"
  "getattr halfway 2 ''snapshots'' = Inr (PRef snapshots_addr)"
  "getattr halfway 2 ''movie_info'' = Inr (PRef 3)"
  "dicts halfway snapshots_addr = Some Map.empty"
  "getitem halfway (PRef 3) (PStr ''duration'') = Inr (PInt 100)"
  by (simp_all add: halfway_def new_ConvertResult_def new_dict_def imported_def setattr_def
        getattr_def getitem_def dict_of_def ConvertResult_def snapshots_addr_def
        metadata_addr_def)

lemma snapshot_loop_attempts:
  assumes "installed e ''ffmpeg''" and "streams_end e"
    and "\<forall>p\<in>set ps. leaves_snapshot e mc p"
    and "loop_ready w result mc"
  shows "\<exists>w'. snapshot_loop e result ps w = Some (Inr w')
           \<and> launched w' = launched w
               @ map (\<lambda>p. snapshot_command mc (mc @ ''_'' @ str_int p @ ''.jpeg'') p) ps"
  using assms(3) assms(4)
proof (induction ps arbitrary: w)
  case Nil
  then show ?case by (simp add: return_def)
next
  case (Cons p ps)
  have here: "\<forall>fs. effect e (snapshot_command mc (mc @ ''_'' @ str_int p @ ''.jpeg'') p) fs
               (mc @ ''_'' @ str_int p @ ''.jpeg'') \<noteq> None"
    using Cons.prems(1) by (simp add: leaves_snapshot_def)
  have rest: "\<forall>p\<in>set ps. leaves_snapshot e mc p"
    using Cons.prems(1) by simp
  obtain w1 where
    r1: "loop_ready w1 result mc" and
    l1: "launched w1 = launched w @ [snapshot_command mc (mc @ ''_'' @ str_int p @ ''.jpeg'') p]" and
    s1: "snapshot_loop e result (p # ps) w = snapshot_loop e result ps w1"
    using snapshot_loop_step [OF assms(1) assms(2) here Cons.prems(2), of ps] by blast
  obtain w' where
    "snapshot_loop e result ps w1 = Some (Inr w')" and
    "launched w' = launched w1
       @ map (\<lambda>p. snapshot_command mc (mc @ ''_'' @ str_int p @ ''.jpeg'') p) ps"
    using Cons.IH [OF rest r1] by blast
  then show ?case
    using l1 s1 by simp
qed

lemma snapshot_loop_absent:
  assumes "installed e ''ffmpeg''" and "streams_end e"
    and "effect e (snapshot_command mc (mc @ ''_'' @ str_int p @ ''.jpeg'') p) (files w)
           (mc @ ''_'' @ str_int p @ ''.jpeg'') = None"
    and "loop_ready w result mc"
  shows "snapshot_loop e result (p # ps) w = Some (Inl OSError)"
proof -
  define thumb where "thumb = mc @ ''_'' @ str_int p @ ''.jpeg''"
  from assms(4) have mc: "getattr w result ''movie_converted'' = Inr (PStr mc)"
    unfolding loop_ready_def by blast
  have fn: "snapshot_filename w result p = Inr (Some thumb)"
    using mc by (simp add: snapshot_filename_def str_of_def thumb_def)
  let ?w0 = "w\<lparr>files := effect e (snapshot_command mc thumb p) (files w),
               launched := launched w @ [snapshot_command mc thumb p]\<rparr>"
  have po: "popen e (snapshot_command mc thumb p) None () w = Some (Inr ((), ?w0))"
    using assms(2) by (rule popen_None_returns)
  have gone: "effect e (snapshot_command mc thumb p) (files w) thumb = None"
    using assms(3) unfolding thumb_def .
  have ms: "make_snapshot e mc thumb p w = Some (Inl OSError)"
    using gone by (simp add: make_snapshot_cases [OF assms(1) po])
  show ?thesis
    by (simp add: fn mc str_of_def ms)
qed

lemma snapshot_loop_aborts:
  assumes "installed e ''ffmpeg''" and "streams_end e"
    and "\<forall>q\<in>set qs. leaves_snapshot e mc q"
    and "leaves_nothing e mc p"
    and "loop_ready w result mc"
  shows "snapshot_loop e result (qs @ p # ps) w = Some (Inl OSError)"
  using assms(3) assms(5)
proof (induction qs arbitrary: w)
  case Nil
  have "effect e (snapshot_command mc (mc @ ''_'' @ str_int p @ ''.jpeg'') p) (files w)
          (mc @ ''_'' @ str_int p @ ''.jpeg'') = None"
    using assms(4) unfolding leaves_nothing_def by (rule spec)
  then show ?case
    using snapshot_loop_absent [OF assms(1) assms(2) _ Nil.prems(2)] by simp
next
  case (Cons q qs)
  have here: "\<forall>fs. effect e (snapshot_command mc (mc @ ''_'' @ str_int q @ ''.jpeg'') q) fs
               (mc @ ''_'' @ str_int q @ ''.jpeg'') \<noteq> None"
    using Cons.prems(1) by (simp add: leaves_snapshot_def)
  have rest: "\<forall>q\<in>set qs. leaves_snapshot e mc q"
    using Cons.prems(1) by simp
  obtain w1 where
    r1: "loop_ready w1 result mc" and
    s1: "snapshot_loop e result (q # (qs @ p # ps)) w = snapshot_loop e result (qs @ p # ps) w1"
    using snapshot_loop_step [OF assms(1) assms(2) here Cons.prems(2), of "qs @ p # ps"] by blast
  show ?case
    using s1 Cons.IH [OF rest r1] by simp
qed

lemma plan_seconds_Py27: "plan_seconds Py27 100 10 = Inl TypeError"
  by (simp add: plan_seconds_def fits_long_def)

lemma float_of_int_rounds: "float_of_int 9007199254740995 = 9007199254740996"
  by (simp add: float_of_int_def bit_length.simps)

lemma plan_seconds_midpoint_rounds:
  "plan_seconds Py26 9007199254740995 10 =
     Inr [1, 900719925474100, 1801439850948199, 2702159776422298, 3602879701896397,
          4503599627370496, 5404319552844595, 6305039478318694, 7205759403792793,
          8106479329266892, 9007199254740991, 9007199254740995, 4503599627370498]"
  by (simp add: plan_seconds_def fits_long_def float_of_int_def bit_length.simps xrange_def
        xrange_up.simps)

lemma streams_end_silent: "streams_end silent_env"
  by (simp add: streams_end_def silent_env_def popen_stream_silent)

lemma streams_end_lossy: "streams_end lossy_env"
  by (simp add: streams_end_def lossy_env_def popen_stream_silent)

lemma halfway_ready: "loop_ready halfway 2 ''out.flv''"
  unfolding loop_ready_def using halfway_attrs(1,2,4) by blast

lemma halfway_files: "files halfway = Map.empty"
  by (simp add: halfway_def new_ConvertResult_def new_dict_def imported_def setattr_def)

text \<open>
  Claim C8, as the specification states it, fails.  With a clip of 100 seconds and no
  output file left by the snapshot command, the first offset fails and the method does
  not go on to the next one: \<open>os.path.getsize\<close> raises \<open>OSError\<close>, which nothing catches,
  and the exception leaves the method.  And under Python 2.7 no offset is planned at
  all: \<open>xrange\<close> refuses the float step.
\<close>

theorem snapshot_plan_abort_counterexample:
  "installed silent_env ''ffmpeg'' \<and> streams_end silent_env \<and> loop_ready halfway 2 ''out.flv''
   \<and> getitem halfway (PRef 3) (PStr ''duration'') = Inr (PInt 100)
   \<and> make_snapshot silent_env ''out.flv'' ''out.flv_1.jpeg'' 1 halfway = Some (Inl OSError)
   \<and> BaseConverter_make_snapshot silent_env Py26 2 10 halfway = Some (Inl OSError)
   \<and> plan_seconds Py27 100 10 = Inl TypeError"
proof -
  have i: "installed silent_env ''ffmpeg''"
    by (simp add: silent_env_def)
  have n: "effect silent_env
             (snapshot_command ''out.flv'' (''out.flv'' @ ''_'' @ str_int 1 @ ''.jpeg'') 1)
             (files halfway) (''out.flv'' @ ''_'' @ str_int 1 @ ''.jpeg'') = None"
    by (simp add: silent_env_def halfway_files)
  have m: "make_snapshot silent_env ''out.flv'' ''out.flv_1.jpeg'' 1 halfway = Some (Inl OSError)"
    by (simp add: make_snapshot_def check_utility_def i popen_silent getsize_def raise_def
          halfway_files)
  have l: "snapshot_loop silent_env 2 [1, 11, 21, 31, 41, 51, 61, 71, 81, 91, 100, 50] halfway
             = Some (Inl OSError)"
    by (rule snapshot_loop_absent [OF i streams_end_silent n halfway_ready])
  have b: "BaseConverter_make_snapshot silent_env Py26 2 10 halfway = Some (Inl OSError)"
    unfolding BaseConverter_make_snapshot_def
    by (simp only: halfway_attrs(3) halfway_attrs(5) plan_seconds_100_10 and_then_simps
          pyval.case l)
  show ?thesis
    using i streams_end_silent halfway_ready halfway_attrs(5) m b plan_seconds_Py27 by simp
qed

text \<open>
  Claim C8, amended.  Let \<open>ffmpeg\<close> be installed, let the output of every command end,
  and let the result hold a clip of 100 seconds.  Under Python 2.6 the planner gives the
  seconds 1, 11, ..., 91, then 100 and 50, and the method tries them in this order.  If
  every snapshot command of the plan leaves its output file, of whatever size (an empty
  file is a failed snapshot), the method returns and has started one command for each
  second of the plan: a failed snapshot does not end the loop.  But at the first second
  whose command leaves no output file the method raises \<open>OSError\<close>, whatever seconds
  come after it in the plan.  Under Python 2.7 the method raises \<open>TypeError\<close> before
  the first snapshot.
\<close>

theorem snapshot_plan_attempts:
  assumes "installed e ''ffmpeg''" and "streams_end e"
    and "loop_ready w result mc"
    and "getattr w result ''movie_info'' = Inr info"
    and "getitem w info (PStr ''duration'') = Inr (PInt 100)"
  shows "plan_seconds Py26 100 10 = Inr [1, 11, 21, 31, 41, 51, 61, 71, 81, 91, 100, 50]
       \<and> ((\<forall>p\<in>set [1, 11, 21, 31, 41, 51, 61, 71, 81, 91, 100, 50]. leaves_snapshot e mc p) \<longrightarrow>
            (\<exists>w'. BaseConverter_make_snapshot e Py26 result 10 w = Some (Inr w')
               \<and> launched w' = launched w
                   @ map (\<lambda>p. snapshot_command mc (mc @ ''_'' @ str_int p @ ''.jpeg'') p)
                       [1, 11, 21, 31, 41, 51, 61, 71, 81, 91, 100, 50]))
       \<and> (\<forall>qs p ps. [1, 11, 21, 31, 41, 51, 61, 71, 81, 91, 100, 50] = qs @ p # ps
              \<and> (\<forall>q\<in>set qs. leaves_snapshot e mc q) \<and> leaves_nothing e mc p \<longrightarrow>
            BaseConverter_make_snapshot e Py26 result 10 w = Some (Inl OSError))
       \<and> BaseConverter_make_snapshot e Py27 result 10 w = Some (Inl TypeError)"
proof (intro conjI impI allI)
  show "plan_seconds Py26 100 10 = Inr [1, 11, 21, 31, 41, 51, 61, 71, 81, 91, 100, 50]"
    by (rule plan_seconds_100_10)
next
  assume "\<forall>p\<in>set [1, 11, 21, 31, 41, 51, 61, 71, 81, 91, 100, 50]. leaves_snapshot e mc p"
  then obtain w' where
    run: "snapshot_loop e result [1, 11, 21, 31, 41, 51, 61, 71, 81, 91, 100, 50] w
            = Some (Inr w')" and
    cmds: "launched w' = launched w
             @ map (\<lambda>p. snapshot_command mc (mc @ ''_'' @ str_int p @ ''.jpeg'') p)
                 [1, 11, 21, 31, 41, 51, 61, 71, 81, 91, 100, 50]"
    using snapshot_loop_attempts [OF assms(1) assms(2) _ assms(3)] by blast
  have "BaseConverter_make_snapshot e Py26 result 10 w = Some (Inr w')"
    unfolding BaseConverter_make_snapshot_def
    by (simp only: assms(4) assms(5) plan_seconds_100_10 and_then_simps pyval.case run)
  then show "\<exists>w'. BaseConverter_make_snapshot e Py26 result 10 w = Some (Inr w')
               \<and> launched w' = launched w
                   @ map (\<lambda>p. snapshot_command mc (mc @ ''_'' @ str_int p @ ''.jpeg'') p)
                       [1, 11, 21, 31, 41, 51, 61, 71, 81, 91, 100, 50]"
    using cmds by blast
next
  fix qs p ps
  assume split: "[1, 11, 21, 31, 41, 51, 61, 71, 81, 91, 100, 50] = qs @ p # ps
              \<and> (\<forall>q\<in>set qs. leaves_snapshot e mc q) \<and> leaves_nothing e mc p"
  then have "snapshot_loop e result (qs @ p # ps) w = Some (Inl OSError)"
    using snapshot_loop_aborts [OF assms(1) assms(2) _ _ assms(3)] by blast
  then have l: "snapshot_loop e result [1, 11, 21, 31, 41, 51, 61, 71, 81, 91, 100, 50] w
                  = Some (Inl OSError)"
    using split by simp
  show "BaseConverter_make_snapshot e Py26 result 10 w = Some (Inl OSError)"
    unfolding BaseConverter_make_snapshot_def
    by (simp only: assms(4) assms(5) plan_seconds_100_10 and_then_simps pyval.case l)
next
  show "BaseConverter_make_snapshot e Py27 result 10 w = Some (Inl TypeError)"
    unfolding BaseConverter_make_snapshot_def
    by (simp only: assms(4) assms(5) plan_seconds_Py27 and_then_simps pyval.case)
qed
theorem snapshot_plan_attempts_witness:
  "installed flaky_env ''ffmpeg'' \<and> streams_end flaky_env \<and> loop_ready halfway 2 ''out.flv''
   \<and> getattr halfway 2 ''movie_info'' = Inr (PRef 3)
   \<and> getitem halfway (PRef 3) (PStr ''duration'') = Inr (PInt 100)
   \<and> list_all (leaves_snapshot flaky_env ''out.flv'')
         [1, 11, 21, 31, 41, 51, 61, 71, 81, 91, 100, 50]
   \<and> map_option (map_sum id fst)
       (make_snapshot flaky_env ''out.flv'' ''out.flv_21.jpeg'' 21 halfway) = Some (Inr False)
   \<and> (\<exists>w'. BaseConverter_make_snapshot flaky_env Py26 2 10 halfway = Some (Inr w')
         \<and> launched w' = launched halfway
             @ map (\<lambda>p. snapshot_command ''out.flv'' (''out.flv'' @ ''_'' @ str_int p @ ''.jpeg'') p)
                 [1, 11, 21, 31, 41, 51, 61, 71, 81, 91, 100, 50])
   \<and> BaseConverter_make_snapshot flaky_env Py27 2 10 halfway = Some (Inl TypeError)
   \<and> installed lossy_env ''ffmpeg'' \<and> streams_end lossy_env
   \<and> leaves_snapshot lossy_env ''out.flv'' 1 \<and> leaves_snapshot lossy_env ''out.flv'' 11
   \<and> leaves_nothing lossy_env ''out.flv'' 21
   \<and> BaseConverter_make_snapshot lossy_env Py26 2 10 halfway = Some (Inl OSError)"
proof -
  have i: "installed flaky_env ''ffmpeg''"
    by (simp add: flaky_env_def)
  have f: "\<forall>p\<in>set [1, 11, 21, 31, 41, 51, 61, 71, 81, 91, 100, 50].
             leaves_snapshot flaky_env ''out.flv'' p"
    by (simp add: leaves_snapshot_def flaky_env_def)
  have p: "popen flaky_env (snapshot_command ''out.flv'' ''out.flv_21.jpeg'' 21) None () halfway
             = Some (Inr ((), halfway\<lparr>files :=
                   effect flaky_env (snapshot_command ''out.flv'' ''out.flv_21.jpeg'' 21)
                     (files halfway),
                 launched := launched halfway
                   @ [snapshot_command ''out.flv'' ''out.flv_21.jpeg'' 21]\<rparr>))"
    using streams_end_flaky by (rule popen_None_returns)
  have m: "map_option (map_sum id fst)
       (make_snapshot flaky_env ''out.flv'' ''out.flv_21.jpeg'' 21 halfway) = Some (Inr False)"
    by (simp add: make_snapshot_cases [OF i p], simp add: flaky_env_def)
  have j: "installed lossy_env ''ffmpeg''"
    by (simp add: lossy_env_def)
  have q: "leaves_snapshot lossy_env ''out.flv'' 1" "leaves_snapshot lossy_env ''out.flv'' 11"
    by (simp_all add: leaves_snapshot_def lossy_env_def str_int_def str_nat.simps digit_char_def)
  have n: "leaves_nothing lossy_env ''out.flv'' 21"
    by (simp add: leaves_nothing_def lossy_env_def str_int_def str_nat.simps digit_char_def)
  note flaky = snapshot_plan_attempts
    [OF i streams_end_flaky halfway_ready halfway_attrs(3) halfway_attrs(5)]
  note lossy = snapshot_plan_attempts
    [OF j streams_end_lossy halfway_ready halfway_attrs(3) halfway_attrs(5)]
  have full: "\<exists>w'. BaseConverter_make_snapshot flaky_env Py26 2 10 halfway = Some (Inr w')
         \<and> launched w' = launched halfway
             @ map (\<lambda>p. snapshot_command ''out.flv'' (''out.flv'' @ ''_'' @ str_int p @ ''.jpeg'') p)
                 [1, 11, 21, 31, 41, 51, 61, 71, 81, 91, 100, 50]"
    using flaky f by blast
  have t: "BaseConverter_make_snapshot flaky_env Py27 2 10 halfway = Some (Inl TypeError)"
    using flaky by blast
  have ab: "[1, 11, 21, 31, 41, 51, 61, 71, 81, 91, 100, 50] = qs @ r # rs
              \<and> (\<forall>q\<in>set qs. leaves_snapshot lossy_env ''out.flv'' q)
              \<and> leaves_nothing lossy_env ''out.flv'' r \<Longrightarrow>
            BaseConverter_make_snapshot lossy_env Py26 2 10 halfway = Some (Inl OSError)"
    for qs r rs
    using lossy by blast
  have a: "BaseConverter_make_snapshot lossy_env Py26 2 10 halfway = Some (Inl OSError)"
    by (rule ab [of "[1, 11]" 21 "[31, 41, 51, 61, 71, 81, 91, 100, 50]"]) (simp add: q n)
  have g: "list_all (leaves_snapshot flaky_env ''out.flv'')
             [1, 11, 21, 31, 41, 51, 61, 71, 81, 91, 100, 50]"
    using f unfolding list_all_iff .
  show ?thesis
    using i streams_end_flaky halfway_ready halfway_attrs(3) halfway_attrs(5) g m full t
      j streams_end_lossy q n a
    by blast
qed

subsection \<open>The dictionaries of the result class\<close>

lemma getattr_class_dicts:
  assumes "ConvertResult_instance w r"
  shows "getattr w r ''snapshots'' = Inr (PRef snapshots_addr)"
    and "getattr w r ''metadata'' = Inr (PRef metadata_addr)"
  using assms
  by (auto simp: ConvertResult_instance_def getattr_def ConvertResult_def)

lemma ConvertResult_instance_new:
  "ConvertResult_instance (snd (new_ConvertResult w)) (fst (new_ConvertResult w))"
  by (simp add: ConvertResult_instance_def new_ConvertResult_def)

lemma ConvertResult_instance_objects:
  "objects w' = objects w \<Longrightarrow> ConvertResult_instance w r \<Longrightarrow> ConvertResult_instance w' r"
  by (simp add: ConvertResult_instance_def)

text \<open>
  Claim C9.  Let \<open>r1\<close> and \<open>r2\<close> be instances of \<open>ConvertResult\<close>, in a world where the
  module has been imported (the two dictionaries of the class exist).  The statement
  \<open>r1.snapshots[position] = thumb\<close> succeeds, and afterwards \<open>r2.snapshots\<close> has the
  entry, and so has the \<open>snapshots\<close> of an instance constructed after the statement.
  The same holds for an entry stored through \<open>r1.metadata\<close>.
\<close>

theorem ConvertResult_dictionaries_shared:
  assumes "ConvertResult_instance w r1" and "ConvertResult_instance w r2"
    and "dicts w snapshots_addr = Some m" and "dicts w metadata_addr = Some m'"
  shows "(\<exists>w1. store_snapshot r1 position thumb w = Inr w1
            \<and> snapshot_at w1 r2 position = Inr (Some (PStr thumb))
            \<and> (case new_ConvertResult w1 of
                  (r3, w2) \<Rightarrow> snapshot_at w2 r3 position = Inr (Some (PStr thumb))))
       \<and> (\<exists>d w1. getattr w r1 ''metadata'' = Inr d \<and> setitem d k v w = Inr w1
            \<and> (\<exists>d'. getattr w1 r2 ''metadata'' = Inr d' \<and> getitem w1 d' k = Inr v)
            \<and> (case new_ConvertResult w1 of
                  (r3, w2) \<Rightarrow> \<exists>d'. getattr w2 r3 ''metadata'' = Inr d' \<and> getitem w2 d' k = Inr v))"
proof -
  define w1 where "w1 = w\<lparr>dicts := (dicts w)(snapshots_addr \<mapsto> m(PInt position \<mapsto> PStr thumb))\<rparr>"
  have st: "store_snapshot r1 position thumb w = Inr w1"
    unfolding w1_def
    using getattr_class_dicts(1) [OF assms(1)] assms(3) by (rule store_snapshot_ready)
  have i2: "ConvertResult_instance w1 r2"
    using assms(2) by (simp add: ConvertResult_instance_def w1_def)
  have s2: "snapshot_at w1 r2 position = Inr (Some (PStr thumb))"
    by (simp add: snapshot_at_def getattr_class_dicts(1) [OF i2], simp add: w1_def)
  have i3: "ConvertResult_instance (snd (new_ConvertResult w1)) (fst (new_ConvertResult w1))"
    by (rule ConvertResult_instance_new)
  have s3: "snapshot_at (snd (new_ConvertResult w1)) (fst (new_ConvertResult w1)) position
              = Inr (Some (PStr thumb))"
    by (simp add: snapshot_at_def getattr_class_dicts(1) [OF i3],
        simp add: w1_def new_ConvertResult_def)
  define u1 where "u1 = w\<lparr>dicts := (dicts w)(metadata_addr \<mapsto> m'(k \<mapsto> v))\<rparr>"
  have mt: "setitem (PRef metadata_addr) k v w = Inr u1"
    using assms(4) by (simp add: setitem_def u1_def)
  have j2: "ConvertResult_instance u1 r2"
    using assms(2) by (simp add: ConvertResult_instance_def u1_def)
  have g2: "getitem u1 (PRef metadata_addr) k = Inr v"
    by (simp add: getitem_def u1_def)
  have j3: "ConvertResult_instance (snd (new_ConvertResult u1)) (fst (new_ConvertResult u1))"
    by (rule ConvertResult_instance_new)
  have g3: "getitem (snd (new_ConvertResult u1)) (PRef metadata_addr) k = Inr v"
    by (simp add: getitem_def u1_def new_ConvertResult_def)
  have first: "\<exists>w1. store_snapshot r1 position thumb w = Inr w1
            \<and> snapshot_at w1 r2 position = Inr (Some (PStr thumb))
            \<and> (case new_ConvertResult w1 of
                  (r3, w2) \<Rightarrow> snapshot_at w2 r3 position = Inr (Some (PStr thumb)))"
    using st s2 s3 by (auto simp: case_prod_beta)
  have second: "\<exists>d w1. getattr w r1 ''metadata'' = Inr d \<and> setitem d k v w = Inr w1
            \<and> (\<exists>d'. getattr w1 r2 ''metadata'' = Inr d' \<and> getitem w1 d' k = Inr v)
            \<and> (case new_ConvertResult w1 of
                  (r3, w2) \<Rightarrow> \<exists>d'. getattr w2 r3 ''metadata'' = Inr d' \<and> getitem w2 d' k = Inr v)"
    using getattr_class_dicts(2) [OF assms(1)] mt getattr_class_dicts(2) [OF j2] g2
      getattr_class_dicts(2) [OF j3] g3
    by (auto simp: case_prod_beta)
  show ?thesis
    using first second by (rule conjI)
qed
lemma two_results_facts:
  "ConvertResult_instance two_results 2"
  "ConvertResult_instance two_results 3"
  "dicts two_results snapshots_addr = Some Map.empty"
  "dicts two_results metadata_addr = Some Map.empty"
  by (simp_all add: two_results_def ConvertResult_instance_def new_ConvertResult_def
        imported_def snapshots_addr_def metadata_addr_def)

theorem ConvertResult_dictionaries_shared_witness:
  "ConvertResult_instance two_results 2 \<and> ConvertResult_instance two_results 3
   \<and> dicts two_results snapshots_addr = Some Map.empty
   \<and> dicts two_results metadata_addr = Some Map.empty
   \<and> (\<exists>w1. store_snapshot 2 21 ''out.flv_21.jpeg'' two_results = Inr w1
         \<and> snapshot_at w1 3 21 = Inr (Some (PStr ''out.flv_21.jpeg''))
         \<and> (case new_ConvertResult w1 of
               (r3, w2) \<Rightarrow> snapshot_at w2 r3 21 = Inr (Some (PStr ''out.flv_21.jpeg''))))"
  using two_results_facts
    ConvertResult_dictionaries_shared [OF two_results_facts, where position = 21
      and thumb = "''out.flv_21.jpeg''"]
  by simp

subsection \<open>The orchestrator\<close>

lemma encode_returns_True:
  assumes "encode e self input_file output_file w = Some (Inr (ok, w1))"
  shows "ok"
  using assms
  by (auto simp: encode_def dest!: and_then_returns)

lemma encode_needs_mencoder:
  assumes "family self \<noteq> MencoderFamily"
  shows "encode e self input_file output_file w = Some (Inl AttributeError)"
  using assms
  by (cases "family self")
     (simp_all add: encode_def parse_converter_output_def get_encode_command_of_def)

lemma getattr_setattr_same: "getattr (setattr obj name v w) obj name = Inr v"
  by (simp add: getattr_def setattr_def split: option.splits)

lemma getattr_setattr_twice:
  "name \<noteq> name' \<Longrightarrow>
   getattr (setattr obj name' v' (setattr obj name v w)) obj name = Inr v"
  by (simp add: getattr_def setattr_def split: option.splits)

lemma store_snapshot_frame:
  assumes "store_snapshot result position thumb w = Inr w'"
  shows "objects w' = objects w"
  using assms
  by (auto simp: store_snapshot_def setitem_def split: sum.splits pyval.splits option.splits)

lemma snapshot_loop_frame:
  assumes "snapshot_loop e result ps w = Some (Inr w')"
  shows "objects w' = objects w"
  using assms
proof (induction ps arbitrary: w)
  case Nil
  then show ?case by simp
next
  case (Cons p ps)
  from Cons.prems obtain thumb where
    rest: "(case thumb of
              None \<Rightarrow> snapshot_loop e result ps w
            | Some thumb_filename \<Rightarrow>
                and_then (lift (getattr w result ''movie_converted'')) (\<lambda>v.
                and_then (lift (str_of v)) (\<lambda>movie_converted.
                and_then (make_snapshot e movie_converted thumb_filename p w) (\<lambda>(ok, w1).
                  if ok then
                    and_then (lift (store_snapshot result p thumb_filename w1))
                      (\<lambda>w2. snapshot_loop e result ps w2)
                  else snapshot_loop e result ps w1)))) = Some (Inr w')"
    by (auto dest!: and_then_returns)
  show ?case
  proof (cases thumb)
    case None
    then show ?thesis
      using rest Cons.IH by simp
  next
    case (Some thumb_filename)
    with rest obtain mc ok w1 where
      ms: "make_snapshot e mc thumb_filename p w = Some (Inr (ok, w1))" and
      after: "(if ok then
                 and_then (lift (store_snapshot result p thumb_filename w1))
                   (\<lambda>w2. snapshot_loop e result ps w2)
               else snapshot_loop e result ps w1) = Some (Inr w')"
      by (auto dest!: and_then_returns)
    have o1: "objects w1 = objects w"
      using make_snapshot_frame [OF ms] by simp
    show ?thesis
    proof (cases ok)
      case False
      then have "objects w' = objects w1"
        using after Cons.IH by simp
      then show ?thesis
        using o1 by simp
    next
      case True
      with after obtain w2 where
        st: "store_snapshot result p thumb_filename w1 = Inr w2" and
        lp: "snapshot_loop e result ps w2 = Some (Inr w')"
        by (auto dest!: and_then_returns)
      have "objects w' = objects w2"
        using lp by (rule Cons.IH)
      then show ?thesis
        using store_snapshot_frame [OF st] o1 by simp
    qed
  qed
qed

lemma BaseConverter_make_snapshot_frame:
  assumes "BaseConverter_make_snapshot e py result num w = Some (Inr w')"
  shows "objects w' = objects w"
  using assms
  by (auto simp: BaseConverter_make_snapshot_def dest!: and_then_returns snapshot_loop_frame
        split: pyval.splits)

lemma BaseConverter_inject_metadata_frame:
  assumes "BaseConverter_inject_metadata e output_file w = Some (Inr w')"
  shows "objects w' = objects w
       \<and> launched w' = launched w @ [yamdi_command output_file (output_file @ ''.yamdi'')]"
proof -
  from assms obtain w1 w2 where
    a: "inject_metadata e output_file (output_file @ ''.yamdi'') w = Some (Inr w1)" and
    b: "remove output_file w1 = Inr w2" and
    c: "rename (output_file @ ''.yamdi'') output_file w2 = Inr w'"
    by (auto simp: BaseConverter_inject_metadata_def dest!: and_then_returns)
  from a have "installed e ''yamdi''"
    by (auto simp: inject_metadata_def check_utility_def split: if_splits)
  with a obtain u where
    "popen e (yamdi_command output_file (output_file @ ''.yamdi'')) None () w = Some (Inr (u, w1))"
    by (auto simp: inject_metadata_def check_utility_def dest!: and_then_returns)
  then have w1: "w1 = w\<lparr>files := effect e (yamdi_command output_file (output_file @ ''.yamdi''))
                                    (files w),
                        launched := launched w @ [yamdi_command output_file (output_file @ ''.yamdi'')]\<rparr>"
    by (rule popen_returns)
  show ?thesis
    using b c w1 by (auto simp: remove_def rename_def split: option.splits)
qed

lemma popen_stream_blank: "popen_stream (\<lambda>i. []) handler st = Some (Inr (st, 7))"
  using popen_loop_blank_tail [of 0 "\<lambda>i. []" 0 5 handler st]
  by (simp add: popen_stream_def)

lemma popen_flaky:
  "popen flaky_env command handler st w
     = Some (Inr (st, w\<lparr>files := effect flaky_env command (files w),
                          launched := launched w @ [command]\<rparr>))"
  by (simp add: popen_def flaky_env_def popen_stream_blank)

lemma get_video_metadata_flaky:
  "\<exists>w1. get_video_metadata flaky_env filename w = Some (Inr (PRef (fresh w), w1))
      \<and> objects w1 = objects w
      \<and> dicts w1 = (dicts w)(fresh w \<mapsto> dict_of [(''duration'', PInt 100), (''width'', PInt 640)])"
proof -
  have i: "installed flaky_env ''mplayer''"
    and d: "identified flaky_env filename = Inr [(''duration'', PInt 100), (''width'', PInt 640)]"
    by (simp_all add: flaky_env_def)
  show ?thesis
    by (simp add: get_video_metadata_def check_utility_def i d popen_flaky new_dict_def
          return_def)
qed

lemma encode_flaky:
  "\<exists>w2. encode flaky_env MencoderConverter input_file output_file w = Some (Inr (True, w2))
      \<and> objects w2 = objects w \<and> dicts w2 = dicts w"
  by (simp add: encode_def parse_converter_output_def get_encode_command_of_def
        MencoderConverter_def popen_flaky return_def)

lemma BaseConverter_make_snapshot_runs:
  assumes "installed e ''ffmpeg''" and "streams_end e"
    and "\<forall>p fs. effect e (snapshot_command mc (mc @ ''_'' @ str_int p @ ''.jpeg'') p) fs
                 (mc @ ''_'' @ str_int p @ ''.jpeg'') \<noteq> None"
    and "loop_ready w result mc"
    and "getattr w result ''movie_info'' = Inr info"
    and "getitem w info (PStr ''duration'') = Inr (PInt 100)"
  shows "\<exists>w'. BaseConverter_make_snapshot e Py26 result 10 w = Some (Inr w')"
proof -
  obtain w' where
    run: "snapshot_loop e result [1, 11, 21, 31, 41, 51, 61, 71, 81, 91, 100, 50] w
            = Some (Inr w')"
    using snapshot_loop_runs [OF assms(1) assms(2) assms(3) assms(4)] by blast
  have "BaseConverter_make_snapshot e Py26 result 10 w = Some (Inr w')"
    unfolding BaseConverter_make_snapshot_def
    by (simp only: assms(5) assms(6) plan_seconds_100_10 and_then_simps pyval.case run)
  then show ?thesis
    by blast
qed

lemma BaseConverter_inject_metadata_flaky:
  "\<exists>w'. BaseConverter_inject_metadata flaky_env output_file w = Some (Inr w')"
proof -
  have i: "installed flaky_env ''yamdi''"
    by (simp add: flaky_env_def)
  have f: "effect flaky_env command fs path \<noteq> None" for command fs path
    by (simp add: flaky_env_def)
  show ?thesis
    by (simp add: BaseConverter_inject_metadata_def inject_metadata_def check_utility_def i
          popen_flaky return_def remove_def rename_def lift_def f split: option.splits)
qed

lemma convert_flaky_returns:
  "\<exists>result w'. convert flaky_env Py26 MencoderConverter ''in.avi'' ''out.flv''
                   (imported Map.empty) = Some (Inr (result, w'))"
proof -
  define wn where "wn = snd (new_ConvertResult (imported Map.empty))"
  define wa where "wa = setattr 2 ''movie_original'' (PStr ''in.avi'') wn"
  have nc: "new_ConvertResult (imported Map.empty) = (2, wn)"
    by (simp add: new_ConvertResult_def imported_def wn_def)
  have fa: "fresh wa = 3"
    by (simp add: wa_def wn_def setattr_def new_ConvertResult_def imported_def)
  obtain w1 where
    md: "get_video_metadata flaky_env ''in.avi'' wa = Some (Inr (PRef 3, w1))" and
    o1: "objects w1 = objects wa" and
    d1: "dicts w1 = (dicts wa)(3 \<mapsto> dict_of [(''duration'', PInt 100), (''width'', PInt 640)])"
    using get_video_metadata_flaky [of "''in.avi''" wa] unfolding fa by blast
  define wb where "wb = setattr 2 ''movie_info'' (PRef 3) w1"
  obtain w2 where
    en: "encode flaky_env MencoderConverter ''in.avi'' ''out.flv'' wb = Some (Inr (True, w2))" and
    o2: "objects w2 = objects wb" and
    d2: "dicts w2 = dicts wb"
    using encode_flaky [of "''in.avi''" "''out.flv''" wb] by blast
  define wc where "wc = setattr 2 ''converted'' (PBool True) w2"
  define wd where "wd = setattr 2 ''movie_converted'' (PStr ''out.flv'') wc"
  have cv: "getattr wc 2 ''converted'' = Inr (PBool True)"
    unfolding wc_def by (rule getattr_setattr_same)
  have od: "objects wd 2 = Some [''movie_original'' \<mapsto> PStr ''in.avi'', ''movie_info'' \<mapsto> PRef 3,
                                  ''converted'' \<mapsto> PBool True, ''movie_converted'' \<mapsto> PStr ''out.flv'']"
    by (simp add: wd_def wc_def setattr_def o2 wb_def o1 wa_def wn_def new_ConvertResult_def
          imported_def)
  have dd: "dicts wd = [metadata_addr \<mapsto> Map.empty, snapshots_addr \<mapsto> Map.empty,
                        3 \<mapsto> dict_of [(''duration'', PInt 100), (''width'', PInt 640)]]"
    by (simp add: wd_def wc_def setattr_def d2 wb_def d1 wa_def wn_def new_ConvertResult_def
          imported_def)
  have ready: "loop_ready wd 2 ''out.flv''"
  proof (rule loop_readyI)
    show "getattr wd 2 ''movie_converted'' = Inr (PStr ''out.flv'')"
      by (simp add: getattr_def od)
    show "getattr wd 2 ''snapshots'' = Inr (PRef snapshots_addr)"
      by (simp add: getattr_def od ConvertResult_def)
    show "dicts wd snapshots_addr = Some Map.empty"
      by (simp add: dd snapshots_addr_def metadata_addr_def)
  qed
  have info: "getattr wd 2 ''movie_info'' = Inr (PRef 3)"
    by (simp add: getattr_def od)
  have dur: "getitem wd (PRef 3) (PStr ''duration'') = Inr (PInt 100)"
    by (simp add: getitem_def dd dict_of_def)
  have i: "installed flaky_env ''ffmpeg''"
    by (simp add: flaky_env_def)
  have f: "\<forall>p fs. effect flaky_env
             (snapshot_command ''out.flv'' (''out.flv'' @ ''_'' @ str_int p @ ''.jpeg'') p) fs
             (''out.flv'' @ ''_'' @ str_int p @ ''.jpeg'') \<noteq> None"
    by (simp add: flaky_env_def)
  obtain w4 where sn: "BaseConverter_make_snapshot flaky_env Py26 2 10 wd = Some (Inr w4)"
    using BaseConverter_make_snapshot_runs [OF i streams_end_flaky f ready info dur] by blast
  obtain w5 where ij: "BaseConverter_inject_metadata flaky_env ''out.flv'' w4 = Some (Inr w5)"
    using BaseConverter_inject_metadata_flaky [of "''out.flv''" w4] by blast
  have "convert flaky_env Py26 MencoderConverter ''in.avi'' ''out.flv'' (imported Map.empty)
          = Some (Inr (2, w5))"
    unfolding convert_def nc
    using md en cv sn ij
    by (simp add: wa_def [symmetric] wb_def [symmetric] wc_def [symmetric] wd_def [symmetric]
          truthy_def return_def)
  then show ?thesis
    by blast
qed

text \<open>
  Claim C10.  When \<open>encode\<close> returns, it returns \<open>True\<close>, whatever the encoder printed or
  did to the files.  When \<open>convert\<close> returns, the attribute \<open>converted\<close> of the result is
  \<open>True\<close> and \<open>movie_converted\<close> is the output file; the snapshot stage has run and
  returned, the metadata injection has run after it and returned, and the last command
  started is the one of the injection.
\<close>

theorem convert_always_converted:
  "(encode e self input_file output_file w = Some (Inr (ok, w1)) \<longrightarrow> ok)
   \<and> (convert e py self input_file output_file w = Some (Inr (result, w')) \<longrightarrow>
        getattr w' result ''converted'' = Inr (PBool True)
        \<and> getattr w' result ''movie_converted'' = Inr (PStr output_file)
        \<and> (\<exists>w3 w4. BaseConverter_make_snapshot e py result 10 w3 = Some (Inr w4)
              \<and> BaseConverter_inject_metadata e output_file w4 = Some (Inr w'))
        \<and> launched w' \<noteq> []
        \<and> last (launched w') = yamdi_command output_file (output_file @ ''.yamdi''))"
proof (intro conjI impI)
  assume "encode e self input_file output_file w = Some (Inr (ok, w1))"
  then show ok
    by (rule encode_returns_True)
next
  assume run: "convert e py self input_file output_file w = Some (Inr (result, w'))"
  define wn where "wn = w\<lparr>objects := (objects w)(fresh w \<mapsto> Map.empty), fresh := Suc (fresh w)\<rparr>"
  define wa where "wa = setattr (fresh w) ''movie_original'' (PStr input_file) wn"
  have nc: "new_ConvertResult w = (fresh w, wn)"
    by (simp add: new_ConvertResult_def wn_def)
  from run obtain info wi where
    "get_video_metadata e input_file wa = Some (Inr (info, wi))" and
    r1: "and_then (encode e self input_file output_file (setattr (fresh w) ''movie_info'' info wi))
           (\<lambda>(ok, w2).
              case setattr (fresh w) ''converted'' (PBool ok) w2 of w3 \<Rightarrow>
              and_then (lift (getattr w3 (fresh w) ''converted'')) (\<lambda>converted.
                if truthy w3 converted then
                  and_then (BaseConverter_make_snapshot e py (fresh w) 10
                              (setattr (fresh w) ''movie_converted'' (PStr output_file) w3)) (\<lambda>w4.
                  and_then (BaseConverter_inject_metadata e output_file w4) (\<lambda>w5.
                    return (fresh w, w5)))
                else return (fresh w, w3))) = Some (Inr (result, w'))"
    unfolding convert_def nc wa_def by (auto dest!: and_then_returns)
  from r1 obtain b w2 where
    en: "encode e self input_file output_file (setattr (fresh w) ''movie_info'' info wi)
           = Some (Inr (b, w2))" and
    r2: "and_then (lift (getattr (setattr (fresh w) ''converted'' (PBool b) w2) (fresh w)
                     ''converted'')) (\<lambda>converted.
           if truthy (setattr (fresh w) ''converted'' (PBool b) w2) converted then
             and_then (BaseConverter_make_snapshot e py (fresh w) 10
                         (setattr (fresh w) ''movie_converted'' (PStr output_file)
                            (setattr (fresh w) ''converted'' (PBool b) w2))) (\<lambda>w4.
             and_then (BaseConverter_inject_metadata e output_file w4) (\<lambda>w5.
               return (fresh w, w5)))
           else return (fresh w, setattr (fresh w) ''converted'' (PBool b) w2))
         = Some (Inr (result, w'))"
    by (auto dest!: and_then_returns)
  have b: b
    using en by (rule encode_returns_True)
  define w3 where
    "w3 = setattr (fresh w) ''movie_converted'' (PStr output_file)
            (setattr (fresh w) ''converted'' (PBool True) w2)"
  from r2 b obtain w4 where
    sn: "BaseConverter_make_snapshot e py (fresh w) 10 w3 = Some (Inr w4)" and
    ij: "BaseConverter_inject_metadata e output_file w4 = Some (Inr w')" and
    res: "result = fresh w"
    unfolding w3_def
    by (auto simp: getattr_setattr_same truthy_def dest!: and_then_returns)
  have o4: "objects w4 = objects w3"
    using sn by (rule BaseConverter_make_snapshot_frame)
  have o5: "objects w' = objects w4" and
    l5: "launched w' = launched w4 @ [yamdi_command output_file (output_file @ ''.yamdi'')]"
    using BaseConverter_inject_metadata_frame [OF ij] by simp_all
  have o: "objects w' = objects w3"
    using o4 o5 by simp
  have c3: "getattr w3 (fresh w) ''converted'' = Inr (PBool True)"
    unfolding w3_def by (rule getattr_setattr_twice) simp
  have m3: "getattr w3 (fresh w) ''movie_converted'' = Inr (PStr output_file)"
    unfolding w3_def by (rule getattr_setattr_same)
  show "getattr w' result ''converted'' = Inr (PBool True)"
    using c3 res by (simp add: getattr_objects [OF o])
  show "getattr w' result ''movie_converted'' = Inr (PStr output_file)"
    using m3 res by (simp add: getattr_objects [OF o])
  show "\<exists>w3 w4. BaseConverter_make_snapshot e py result 10 w3 = Some (Inr w4)
          \<and> BaseConverter_inject_metadata e output_file w4 = Some (Inr w')"
    using sn ij res by blast
  show "launched w' \<noteq> []"
    using l5 by simp
  show "last (launched w') = yamdi_command output_file (output_file @ ''.yamdi'')"
    using l5 by simp
qed

theorem convert_always_converted_witness:
  "\<exists>w1 result w'.
     encode flaky_env MencoderConverter ''in.avi'' ''out.flv'' (imported Map.empty)
       = Some (Inr (True, w1))
     \<and> convert flaky_env Py26 MencoderConverter ''in.avi'' ''out.flv'' (imported Map.empty)
         = Some (Inr (result, w'))
     \<and> getattr w' result ''converted'' = Inr (PBool True)
     \<and> getattr w' result ''movie_converted'' = Inr (PStr ''out.flv'')
     \<and> last (launched w') = yamdi_command ''out.flv'' (''out.flv'' @ ''.yamdi'')"
proof -
  obtain w1 where
    en: "encode flaky_env MencoderConverter ''in.avi'' ''out.flv'' (imported Map.empty)
           = Some (Inr (True, w1))"
    using encode_flaky [of "''in.avi''" "''out.flv''" "imported Map.empty"] by blast
  obtain result w' where
    cv: "convert flaky_env Py26 MencoderConverter ''in.avi'' ''out.flv'' (imported Map.empty)
           = Some (Inr (result, w'))"
    using convert_flaky_returns by blast
  show ?thesis
    using en cv
      convert_always_converted [of flaky_env MencoderConverter "''in.avi''" "''out.flv''"
        "imported Map.empty" True w1 Py26 result w']
    by blast
qed

end
